theory Spec2Isabelle
  imports Main "HOL-Library.Word" "HOL-Library.List_Lexorder" "HOL-Library.AList"
begin

section \<open>Strings and byte buffers\<close>

text \<open>
  A JavaScript string is a sequence of 16-bit code units; the relational operators on
  strings compare code units lexicographically, which is the order of
  \<open>HOL-Library.List_Lexorder\<close> on \<open>16 word list\<close>.  A \<open>Uint8Array\<close> holds bytes.
\<close>

type_synonym jsstring = "16 word list"
type_synonym byte = "8 word"

definition js :: "string \<Rightarrow> jsstring" where
  "js s = map of_char s"

text \<open>\<open>String.prototype.includes\<close>: the pattern occurs as a contiguous substring.\<close>

fun str_includes :: "jsstring \<Rightarrow> jsstring \<Rightarrow> bool" where
  "str_includes [] pat = (pat = [])"
| "str_includes (c # cs) pat = (take (length pat) (c # cs) = pat \<or> str_includes cs pat)"

subsection \<open>The class Buffer\<close>

text \<open>
  \<open>Buffer\<close> is imported from the package \<open>buffer\<close>, of which the repository holds the
  type declaration only (\<open>src/declarations.d.ts\<close>).  The four conversions the services
  use are modelled from the package's documented behaviour, on natural numbers first:
  \<^item> \<open>buf.toString('base64')\<close>: standard alphabet, padded with \<open>=\<close>;
  \<^item> \<open>Buffer.from(s, 'base64')\<close>: the text up to the first \<open>=\<close>, characters outside the
    alphabet skipped (\<open>-\<close> and \<open>_\<close> count as \<open>+\<close> and \<open>/\<close>), four characters giving three
    bytes, a rest of three giving two, of two giving one, a single one dropped;
  \<^item> \<open>Buffer.from(s, 'utf8')\<close>: UTF-8 of the code points of \<open>s\<close>, every unpaired
    surrogate replaced by U+FFFD (bytes EF BF BD);
  \<^item> \<open>buf.toString('utf8')\<close>: the code points decoded, one U+FFFD for each byte that
    does not start a valid sequence, code points above U+FFFF as surrogate pairs.
\<close>

definition b64char :: "nat \<Rightarrow> nat" where
  "b64char i = (if i < 26 then 65 + i else if i < 52 then 71 + i
                else if i < 62 then i - 4 else if i = 62 then 43 else 47)"

definition is_b64 :: "nat \<Rightarrow> bool" where
  "is_b64 c \<longleftrightarrow> (65 \<le> c \<and> c \<le> 90) \<or> (97 \<le> c \<and> c \<le> 122) \<or> (48 \<le> c \<and> c \<le> 57)
                \<or> c = 43 \<or> c = 47 \<or> c = 45 \<or> c = 95"

definition b64val :: "nat \<Rightarrow> nat" where
  "b64val c = (if 65 \<le> c \<and> c \<le> 90 then c - 65 else if 97 \<le> c \<and> c \<le> 122 then c - 71
               else if 48 \<le> c \<and> c \<le> 57 then c + 4 else if c = 43 \<or> c = 45 then 62 else 63)"

fun b64_encode :: "nat list \<Rightarrow> nat list" where
  "b64_encode [] = []"
| "b64_encode [a] = [b64char (a div 4), b64char ((a mod 4) * 16), 61, 61]"
| "b64_encode [a, b] =
     [b64char (a div 4), b64char ((a mod 4) * 16 + b div 16), b64char ((b mod 16) * 4), 61]"
| "b64_encode (a # b # c # bs) =
     [b64char (a div 4), b64char ((a mod 4) * 16 + b div 16),
      b64char ((b mod 16) * 4 + c div 64), b64char (c mod 64)] @ b64_encode bs"

fun b64_groups :: "nat list \<Rightarrow> nat list" where
  "b64_groups (p # q # r # s # vs) =
     [(p * 4 + q div 16) mod 256, ((q mod 16) * 16 + r div 4) mod 256,
      ((r mod 4) * 64 + s) mod 256] @ b64_groups vs"
| "b64_groups [p, q, r] = [(p * 4 + q div 16) mod 256, ((q mod 16) * 16 + r div 4) mod 256]"
| "b64_groups [p, q] = [(p * 4 + q div 16) mod 256]"
| "b64_groups vs = []"

definition b64_decode :: "nat list \<Rightarrow> nat list" where
  "b64_decode cs = b64_groups (map b64val (filter is_b64 (takeWhile (\<lambda>c. c \<noteq> 61) cs)))"

definition is_lead :: "nat \<Rightarrow> bool" where
  "is_lead c \<longleftrightarrow> 55296 \<le> c \<and> c \<le> 56319"

definition is_trail :: "nat \<Rightarrow> bool" where
  "is_trail c \<longleftrightarrow> 56320 \<le> c \<and> c \<le> 57343"

definition utf8_cp :: "nat \<Rightarrow> nat list" where
  "utf8_cp cp =
     (if cp < 128 then [cp]
      else if cp < 2048 then [192 + cp div 64, 128 + cp mod 64]
      else if cp < 65536 then [224 + cp div 4096, 128 + (cp div 64) mod 64, 128 + cp mod 64]
      else [240 + cp div 262144, 128 + (cp div 4096) mod 64,
            128 + (cp div 64) mod 64, 128 + cp mod 64])"

definition replacement :: "nat list" where
  "replacement = [239, 191, 189]"

fun utf8_encode :: "nat list \<Rightarrow> nat list" where
  "utf8_encode [] = []"
| "utf8_encode [c] = (if is_lead c \<or> is_trail c then replacement else utf8_cp c)"
| "utf8_encode (c # d # cs) =
     (if is_lead c then
        (if is_trail d
         then utf8_cp ((c - 55296) * 1024 + (d - 56320) + 65536) @ utf8_encode cs
         else replacement @ utf8_encode (d # cs))
      else if is_trail c then replacement @ utf8_encode (d # cs)
      else utf8_cp c @ utf8_encode (d # cs))"

definition is_cont :: "nat \<Rightarrow> bool" where
  "is_cont b \<longleftrightarrow> b div 64 = 2"

definition bytesPerSequence :: "nat \<Rightarrow> nat" where
  "bytesPerSequence b = (if b > 239 then 4 else if b > 223 then 3 else if b > 191 then 2 else 1)"

fun decode_seq :: "nat list \<Rightarrow> nat option" where
  "decode_seq [] = None"
| "decode_seq (b0 # bs) =
     (if b0 > 239 then
        (case bs of b1 # b2 # b3 # _ \<Rightarrow>
           if is_cont b1 \<and> is_cont b2 \<and> is_cont b3 then
             (let cp = (b0 mod 16) * 262144 + (b1 mod 64) * 4096 + (b2 mod 64) * 64 + b3 mod 64
              in if cp > 65535 \<and> cp < 1114112 then Some cp else None)
           else None
         | _ \<Rightarrow> None)
      else if b0 > 223 then
        (case bs of b1 # b2 # _ \<Rightarrow>
           if is_cont b1 \<and> is_cont b2 then
             (let cp = (b0 mod 16) * 4096 + (b1 mod 64) * 64 + b2 mod 64
              in if cp > 2047 \<and> (cp < 55296 \<or> cp > 57343) then Some cp else None)
           else None
         | _ \<Rightarrow> None)
      else if b0 > 191 then
        (case bs of b1 # _ \<Rightarrow>
           if is_cont b1 then
             (let cp = (b0 mod 32) * 64 + b1 mod 64
              in if cp > 127 then Some cp else None)
           else None
         | _ \<Rightarrow> None)
      else if b0 < 128 then Some b0 else None)"

definition utf16_units :: "nat \<Rightarrow> nat list" where
  "utf16_units cp =
     (if cp > 65535
      then [55296 + ((cp - 65536) div 1024) mod 1024, 56320 + (cp - 65536) mod 1024]
      else [cp])"

function utf8_decode :: "nat list \<Rightarrow> nat list" where
  "utf8_decode [] = []"
| "utf8_decode (b0 # bs) =
     (case decode_seq (b0 # bs) of
        Some cp \<Rightarrow> utf16_units cp @ utf8_decode (drop (bytesPerSequence b0 - 1) bs)
      | None \<Rightarrow> 65533 # utf8_decode bs)"
  by pat_completeness auto
termination
  by (relation "measure length") auto

definition toString_base64 :: "byte list \<Rightarrow> jsstring" where
  "toString_base64 bs = map of_nat (b64_encode (map unat bs))"

definition from_base64 :: "jsstring \<Rightarrow> byte list" where
  "from_base64 s = map of_nat (b64_decode (map unat s))"

definition from_utf8 :: "jsstring \<Rightarrow> byte list" where
  "from_utf8 s = map of_nat (utf8_encode (map unat s))"

definition toString_utf8 :: "byte list \<Rightarrow> jsstring" where
  "toString_utf8 bs = map of_nat (utf8_decode (map unat bs))"

section \<open>AESService: the session key store and the channel codec\<close>

text \<open>
  \<open>sessionKeys\<close> is a \<open>Map\<close>, kept as an association list in insertion order
  (\<open>Map.set\<close> is \<open>AList.update\<close>, \<open>Map.delete\<close> is \<open>AList.delete\<close>, \<open>Map.get\<close> is
  \<open>map_of\<close>).  A key is a \<open>Uint8Array\<close> object: the entry holds its address and the
  bytes live in \<open>arrays\<close>, so that a caller's reference to the buffer and the entry of
  the store name the same bytes.  \<open>fresh\<close> is the next address \<open>new Uint8Array\<close> returns.
  \<open>Date.now()\<close> is the argument \<open>now\<close>, and the i-th value of
  \<open>Math.floor(Math.random() * 256)\<close> in a loop is \<open>rnd i\<close>.
\<close>

record AESKey =
  key :: nat
  createdAt :: nat

record AESService =
  sessionKeys :: "(jsstring \<times> AESKey) list"
  arrays :: "nat \<Rightarrow> byte list"
  fresh :: nat

datatype error = Error jsstring

record EncryptedData =
  iv :: jsstring
  ciphertext :: jsstring
  tag :: jsstring

definition generateSessionKey ::
  "jsstring \<Rightarrow> (nat \<Rightarrow> byte) \<Rightarrow> nat \<Rightarrow> AESService \<Rightarrow> nat \<times> AESService" where
  "generateSessionKey peerId rnd now s =
     (let k = fresh s
      in (k, s\<lparr>arrays := (arrays s)(k := map rnd [0..<32]),
               fresh := Suc k,
               sessionKeys := AList.update peerId \<lparr>key = k, createdAt = now\<rparr> (sessionKeys s)\<rparr>))"

definition setSessionKey :: "jsstring \<Rightarrow> jsstring \<Rightarrow> nat \<Rightarrow> AESService \<Rightarrow> AESService" where
  "setSessionKey peerId keyBase64 now s =
     (let keyBuffer = from_base64 keyBase64; k = fresh s
      in s\<lparr>arrays := (arrays s)(k := map (\<lambda>i. keyBuffer ! i) [0..<length keyBuffer]),
            fresh := Suc k,
            sessionKeys := AList.update peerId \<lparr>key = k, createdAt = now\<rparr> (sessionKeys s)\<rparr>)"

definition getSessionKey :: "jsstring \<Rightarrow> AESService \<Rightarrow> nat option" where
  "getSessionKey peerId s =
     (case map_of (sessionKeys s) peerId of Some entry \<Rightarrow> Some (key entry) | None \<Rightarrow> None)"

definition hasSessionKey :: "jsstring \<Rightarrow> AESService \<Rightarrow> bool" where
  "hasSessionKey peerId s \<longleftrightarrow> map_of (sessionKeys s) peerId \<noteq> None"

definition exportKey :: "jsstring \<Rightarrow> AESService \<Rightarrow> jsstring option" where
  "exportKey peerId s =
     (case getSessionKey peerId s of None \<Rightarrow> None
      | Some k \<Rightarrow> Some (toString_base64 (arrays s k)))"

definition NoKeyError :: "jsstring \<Rightarrow> error" where
  "NoKeyError peerId = Error (js ''No session key for peer: '' @ peerId)"

text \<open>
  \<open>encrypt\<close> and \<open>decrypt\<close> read the store and write nothing, so they return no new state.
  The cipher is the source's placeholder: the ciphertext is the base64 of the UTF-8 bytes
  of the plaintext and the tag is sixteen zero bytes.
\<close>

definition encrypt ::
  "jsstring \<Rightarrow> jsstring \<Rightarrow> (nat \<Rightarrow> byte) \<Rightarrow> AESService \<Rightarrow> error + EncryptedData" where
  "encrypt peerId plaintext rnd s =
     (case getSessionKey peerId s of
        None \<Rightarrow> Inl (NoKeyError peerId)
      | Some k \<Rightarrow>
          (let ivb = map rnd [0..<12];
               plaintextBytes = from_utf8 plaintext
           in Inr \<lparr>iv = toString_base64 ivb,
                   ciphertext = toString_base64 plaintextBytes,
                   tag = toString_base64 (replicate 16 0)\<rparr>))"

definition decrypt :: "jsstring \<Rightarrow> EncryptedData \<Rightarrow> AESService \<Rightarrow> error + jsstring" where
  "decrypt peerId data s =
     (case getSessionKey peerId s of
        None \<Rightarrow> Inl (NoKeyError peerId)
      | Some k \<Rightarrow> Inr (toString_utf8 (from_base64 (ciphertext data))))"

definition fill0 :: "nat \<Rightarrow> (nat \<Rightarrow> byte list) \<Rightarrow> (nat \<Rightarrow> byte list)" where
  "fill0 k mem = mem(k := replicate (length (mem k)) 0)"

definition destroySessionKey :: "jsstring \<Rightarrow> AESService \<Rightarrow> AESService" where
  "destroySessionKey peerId s =
     (case map_of (sessionKeys s) peerId of
        None \<Rightarrow> s
      | Some entry \<Rightarrow>
          s\<lparr>arrays := fill0 (key entry) (arrays s),
            sessionKeys := AList.delete peerId (sessionKeys s)\<rparr>)"

definition destroyAllKeys :: "AESService \<Rightarrow> AESService" where
  "destroyAllKeys s =
     s\<lparr>arrays := fold (\<lambda>(peerId, entry). fill0 (key entry)) (sessionKeys s) (arrays s),
       sessionKeys := []\<rparr>"

definition getActiveSessionCount :: "AESService \<Rightarrow> nat" where
  "getActiveSessionCount s = length (sessionKeys s)"

definition aes_init :: AESService where
  "aes_init = \<lparr>sessionKeys = [], arrays = (\<lambda>k. []), fresh = 0\<rparr>"

section \<open>PGPService and JSON text\<close>

text \<open>
  \<open>pgpService.encrypt\<close> is the repository's mock: the base64 of the UTF-8 bytes of the
  data, whatever the recipient key is.  It is a promise the callers await inside
  \<open>try\<close>, so its result is a sum.
\<close>

definition pgp_encrypt :: "jsstring \<Rightarrow> jsstring \<Rightarrow> error + jsstring" where
  "pgp_encrypt data recipientPublicKeyArmored = Inr (toString_base64 (from_utf8 data))"

text \<open>
  \<open>JSON.stringify\<close> on an object whose properties are strings, as the manager calls
  it: the properties in order, each string quoted, with the two-character escapes, a
  \<open>\u\<close> escape for the other control characters and for unpaired surrogates.
\<close>

definition hexdigit :: "nat \<Rightarrow> 16 word" where
  "hexdigit n = (if n < 10 then of_nat (48 + n) else of_nat (87 + n))"

definition unicode_escape :: "nat \<Rightarrow> jsstring" where
  "unicode_escape c =
     [92, 117, hexdigit (c div 4096), hexdigit ((c div 256) mod 16),
      hexdigit ((c div 16) mod 16), hexdigit (c mod 16)]"

definition quote_unit :: "nat \<Rightarrow> jsstring" where
  "quote_unit c =
     (if c = 8 then [92, 98] else if c = 9 then [92, 116] else if c = 10 then [92, 110]
      else if c = 12 then [92, 102] else if c = 13 then [92, 114]
      else if c = 34 then [92, 34] else if c = 92 then [92, 92]
      else if c < 32 then unicode_escape c else [of_nat c])"

fun quote_units :: "nat list \<Rightarrow> jsstring" where
  "quote_units [] = []"
| "quote_units [c] = (if is_lead c \<or> is_trail c then unicode_escape c else quote_unit c)"
| "quote_units (c # d # cs) =
     (if is_lead c then
        (if is_trail d then [of_nat c, of_nat d] @ quote_units cs
         else unicode_escape c @ quote_units (d # cs))
      else if is_trail c then unicode_escape c @ quote_units (d # cs)
      else quote_unit c @ quote_units (d # cs))"

definition QuoteJSONString :: "jsstring \<Rightarrow> jsstring" where
  "QuoteJSONString s = [34] @ quote_units (map unat s) @ [34]"

fun JSON_properties :: "(jsstring \<times> jsstring) list \<Rightarrow> jsstring" where
  "JSON_properties [] = []"
| "JSON_properties [(k, v)] = QuoteJSONString k @ [58] @ QuoteJSONString v"
| "JSON_properties ((k, v) # kv # kvs) =
     QuoteJSONString k @ [58] @ QuoteJSONString v @ [44] @ JSON_properties (kv # kvs)"

definition JSON_stringify :: "(jsstring \<times> jsstring) list \<Rightarrow> jsstring" where
  "JSON_stringify props = [123] @ JSON_properties props @ [125]"

section \<open>WebRTCManager\<close>

text \<open>
  The manager's handlers are asynchronous.  In this section each is the function of one
  uninterrupted run, from its call to its return: the calls it makes on the transport,
  the relay, the timers and the application callbacks are returned as a list of events
  in the order of the calls.  What the outside decides (whether a transport call
  rejects, what \<open>createAnswer\<close> returns, the user record of the directory, the clock and
  the random numbers) is the argument \<open>env\<close>.  Console output is not modelled, and so
  neither is the outcome of \<open>addIceCandidate\<close>, whose exception is caught and only
  logged.  A later section cuts the same methods at their awaits, where other handlers
  run.
\<close>

datatype ConnectionState = idle | connecting | connected | disconnected | failed

datatype RTCDataChannelState = rs_connecting | rs_open | rs_closing | rs_closed

datatype SignalType = offer | answer | ice

type_synonym candidate = jsstring

record User =
  username :: jsstring
  pgp_public_key :: jsstring
  is_online :: bool

record RTCSessionDescription =
  sdp :: jsstring
  type :: jsstring

text \<open>The parsed payload of an offer or an answer; \<open>aesKey\<close> is \<open>None\<close> when the property is absent.\<close>

record SignalPayload = RTCSessionDescription +
  aesKey :: "jsstring option"

record SignalSendRequest =
  to_user :: jsstring
  signal_type :: SignalType
  encrypted_payload :: jsstring

record DataChannel =
  channel :: nat
  readyState :: RTCDataChannelState

record PeerConnection =
  pc :: nat
  dataChannel :: "DataChannel option"
  state :: ConnectionState
  pendingCandidates :: "candidate list"
  hasRemoteDescription :: bool

datatype event =
    onStateChange jsstring ConnectionState
  | onError jsstring error
  | new_RTCPeerConnection nat
  | createDataChannel nat nat
  | pc_close nat
  | channel_close nat
  | createOffer nat
  | createAnswer nat
  | setLocalDescription nat RTCSessionDescription "error option"
  | setRemoteDescription nat RTCSessionDescription "error option"
  | addIceCandidate nat candidate
  | pgpService_encrypt jsstring jsstring
  | api_sendSignal SignalSendRequest "error option"
  | channel_send nat jsstring "error option"
  | setInterval nat
  | clearInterval nat

record env =
  now :: nat
  rnd :: "nat \<Rightarrow> byte"
  timer :: nat
  createOffer_result :: "error + RTCSessionDescription"
  createAnswer_result :: "error + RTCSessionDescription"
  setLocalDescription_error :: "error option"
  setRemoteDescription_error :: "error option"
  getUser_result :: "User option"
  sendSignal_error :: "error option"
  send_error :: "error option"

text \<open>
  The fields of the class, the singleton \<open>aesService\<close> it uses, and the number of
  transport objects created so far (the identity of the next one).
\<close>

record WebRTCManager =
  connections :: "(jsstring \<times> PeerConnection) list"
  callbacks :: bool
  pollingInterval :: "nat option"
  currentUser :: "jsstring option"
  aes :: AESService
  nextHandle :: nat

definition manager_init :: WebRTCManager where
  "manager_init = \<lparr>connections = [], callbacks = False, pollingInterval = None,
                    currentUser = None, aes = aes_init, nextHandle = 0\<rparr>"

definition startPolling :: "env \<Rightarrow> WebRTCManager \<Rightarrow> event list \<times> WebRTCManager" where
  "startPolling e w =
     (if pollingInterval w \<noteq> None then ([], w)
      else ([setInterval (timer e)], w\<lparr>pollingInterval := Some (timer e)\<rparr>))"

definition stopPolling :: "WebRTCManager \<Rightarrow> event list \<times> WebRTCManager" where
  "stopPolling w =
     (case pollingInterval w of
        Some t \<Rightarrow> ([clearInterval t], w\<lparr>pollingInterval := None\<rparr>)
      | None \<Rightarrow> ([], w))"

definition init :: "jsstring \<Rightarrow> env \<Rightarrow> WebRTCManager \<Rightarrow> event list \<times> WebRTCManager" where
  "init user e w = startPolling e (w\<lparr>callbacks := True, currentUser := Some user\<rparr>)"

definition updateState ::
  "jsstring \<Rightarrow> ConnectionState \<Rightarrow> WebRTCManager \<Rightarrow> event list \<times> WebRTCManager" where
  "updateState peerId st w =
     (let w' = (case map_of (connections w) peerId of
                  Some conn \<Rightarrow>
                    w\<lparr>connections := AList.update peerId (conn\<lparr>state := st\<rparr>) (connections w)\<rparr>
                | None \<Rightarrow> w)
      in (if callbacks w then [onStateChange peerId st] else [], w'))"

definition sendSignal ::
  "User \<Rightarrow> SignalType \<Rightarrow> jsstring \<Rightarrow> env \<Rightarrow> (error + unit) \<times> event list" where
  "sendSignal peer ty payload e =
     (let (evs, encrypted) =
            (if pgp_public_key peer \<noteq> [] \<and> \<not> str_includes (pgp_public_key peer) (js ''mock'')
             then ([pgpService_encrypt payload (pgp_public_key peer)],
                   (case pgp_encrypt payload (pgp_public_key peer) of
                      Inr c \<Rightarrow> c
                    | Inl err \<Rightarrow> payload))
             else ([], payload));
          request = \<lparr>to_user = username peer, signal_type = ty, encrypted_payload = encrypted\<rparr>
      in (case sendSignal_error e of Some err \<Rightarrow> Inl err | None \<Rightarrow> Inr (),
          evs @ [api_sendSignal request (sendSignal_error e)]))"

definition processPendingCandidates ::
  "jsstring \<Rightarrow> WebRTCManager \<Rightarrow> event list \<times> WebRTCManager" where
  "processPendingCandidates peerId w =
     (case map_of (connections w) peerId of
        None \<Rightarrow> ([], w)
      | Some conn \<Rightarrow>
          (map (addIceCandidate (pc conn)) (pendingCandidates conn),
           w\<lparr>connections :=
               AList.update peerId (conn\<lparr>pendingCandidates := []\<rparr>) (connections w)\<rparr>))"

text \<open>The candidate is \<open>None\<close> when the parsed payload is falsy (\<open>null\<close>).\<close>

definition handleIceCandidate ::
  "jsstring \<Rightarrow> candidate option \<Rightarrow> WebRTCManager \<Rightarrow> event list \<times> WebRTCManager" where
  "handleIceCandidate peerId cand w =
     (case map_of (connections w) peerId of
        None \<Rightarrow> ([], w)
      | Some conn \<Rightarrow>
          (case cand of
             None \<Rightarrow> ([], w)
           | Some c \<Rightarrow>
               if \<not> hasRemoteDescription conn
               then ([], w\<lparr>connections :=
                             AList.update peerId
                               (conn\<lparr>pendingCandidates := pendingCandidates conn @ [c]\<rparr>)
                               (connections w)\<rparr>)
               else ([addIceCandidate (pc conn) c], w)))"

definition handleAnswer ::
  "jsstring \<Rightarrow> SignalPayload \<Rightarrow> env \<Rightarrow> WebRTCManager
     \<Rightarrow> (error + unit) \<times> event list \<times> WebRTCManager" where
  "handleAnswer peerId payload e w =
     (case map_of (connections w) peerId of
        None \<Rightarrow> (Inr (), [], w)
      | Some conn \<Rightarrow>
          if hasRemoteDescription conn then (Inr (), [], w)
          else
            (let desc = \<lparr>sdp = sdp payload, type = type payload\<rparr>;
                 call = setRemoteDescription (pc conn) desc (setRemoteDescription_error e)
             in case setRemoteDescription_error e of
                  Some err \<Rightarrow> (Inl err, [call], w)
                | None \<Rightarrow>
                    (let w1 = w\<lparr>connections :=
                                  AList.update peerId (conn\<lparr>hasRemoteDescription := True\<rparr>)
                                    (connections w)\<rparr>;
                         (evs, w2) = processPendingCandidates peerId w1
                     in (Inr (), call # evs, w2))))"

text \<open>
  \<open>handleOffer\<close> after the collision check, in the order of the source:
  \<open>handleOffer_session\<close> reports the state, installs the received key and stores the new
  session with its transport \<open>h\<close>; \<open>handleOffer_answer\<close> is what follows the await of
  \<open>setRemoteDescription\<close>: the flag, the queued candidates, the answer and its sending.
\<close>

definition handleOffer_session ::
  "jsstring \<Rightarrow> SignalPayload \<Rightarrow> env \<Rightarrow> WebRTCManager \<Rightarrow> event list \<times> nat \<times> WebRTCManager" where
  "handleOffer_session peerId payload e w =
     (let (ev1, w1) = updateState peerId connecting w;
          w2 = (case aesKey payload of
                  Some k \<Rightarrow>
                    if k \<noteq> [] then w1\<lparr>aes := setSessionKey peerId k (now e) (aes w1)\<rparr> else w1
                | None \<Rightarrow> w1);
          h = nextHandle w2;
          w3 = w2\<lparr>connections :=
                    AList.update peerId
                      \<lparr>pc = h, dataChannel = None, state = connecting,
                       pendingCandidates = [], hasRemoteDescription = False\<rparr>
                      (connections w2),
                  nextHandle := Suc h\<rparr>
      in (ev1 @ [new_RTCPeerConnection h], h, w3))"

definition handleOffer_answer ::
  "jsstring \<Rightarrow> nat \<Rightarrow> env \<Rightarrow> WebRTCManager \<Rightarrow> (error + unit) \<times> event list \<times> WebRTCManager" where
  "handleOffer_answer peerId h e w =
     (let (ev4, w4) =
            (case map_of (connections w) peerId of
               Some conn \<Rightarrow>
                 processPendingCandidates peerId
                   (w\<lparr>connections :=
                        AList.update peerId (conn\<lparr>hasRemoteDescription := True\<rparr>)
                          (connections w)\<rparr>)
             | None \<Rightarrow> ([], w));
          ev5 = ev4 @ [createAnswer h]
      in case createAnswer_result e of
           Inl err \<Rightarrow> (Inl err, ev5, w4)
         | Inr ans \<Rightarrow>
             (let ev6 = ev5 @ [setLocalDescription h ans (setLocalDescription_error e)]
              in case setLocalDescription_error e of
                   Some err \<Rightarrow> (Inl err, ev6, w4)
                 | None \<Rightarrow>
                     (case getUser_result e of
                        None \<Rightarrow> (Inr (), ev6, w4)
                      | Some peer \<Rightarrow>
                          (let (r, ev7) =
                                 sendSignal peer answer
                                   (JSON_stringify [(js ''sdp'', sdp ans),
                                                    (js ''type'', type ans)]) e
                           in (r, ev6 @ ev7, w4)))))"

definition handleOffer_respond ::
  "jsstring \<Rightarrow> SignalPayload \<Rightarrow> env \<Rightarrow> WebRTCManager
     \<Rightarrow> (error + unit) \<times> event list \<times> WebRTCManager" where
  "handleOffer_respond peerId payload e w =
     (let (ev3, h, w3) = handleOffer_session peerId payload e w;
          desc = \<lparr>sdp = sdp payload, type = type payload\<rparr>;
          call = setRemoteDescription h desc (setRemoteDescription_error e)
      in case setRemoteDescription_error e of
           Some err \<Rightarrow> (Inl err, ev3 @ [call], w3)
         | None \<Rightarrow>
             (let (r, evs, w4) = handleOffer_answer peerId h e w3
              in (r, ev3 @ [call] @ evs, w4)))"

definition handleOffer ::
  "jsstring \<Rightarrow> SignalPayload \<Rightarrow> env \<Rightarrow> WebRTCManager
     \<Rightarrow> (error + unit) \<times> event list \<times> WebRTCManager" where
  "handleOffer peerId payload e w =
     (case map_of (connections w) peerId of
        Some existingConn \<Rightarrow>
          if (case currentUser w of None \<Rightarrow> False | Some u \<Rightarrow> u \<noteq> [] \<and> u > peerId)
          then (Inr (), [], w)
          else
            (let w0 = w\<lparr>connections := AList.delete peerId (connections w)\<rparr>;
                 (r, evs, w') = handleOffer_respond peerId payload e w0
             in (r, pc_close (pc existingConn) # evs, w'))
      | None \<Rightarrow> handleOffer_respond peerId payload e w)"

text \<open>
  \<open>connect\<close>: \<open>connect_offer\<close> is the end of the \<open>try\<close> block, from \<open>createOffer\<close> on,
  with the exception it throws, if any.
\<close>

definition connect_offer ::
  "User \<Rightarrow> nat \<Rightarrow> env \<Rightarrow> WebRTCManager \<Rightarrow> error option \<times> event list" where
  "connect_offer peer h e w =
     (case createOffer_result e of
        Inl err \<Rightarrow> (Some err, [createOffer h])
      | Inr off \<Rightarrow>
          (let ev = [createOffer h, setLocalDescription h off (setLocalDescription_error e)]
           in case setLocalDescription_error e of
                Some err \<Rightarrow> (Some err, ev)
              | None \<Rightarrow>
                  (let k = (case exportKey (username peer) (aes w) of
                              Some t \<Rightarrow> t | None \<Rightarrow> []);
                       (r, evs) =
                         sendSignal peer offer
                           (JSON_stringify [(js ''sdp'', sdp off), (js ''type'', type off),
                                            (js ''aesKey'', k)]) e
                   in (case r of Inl err \<Rightarrow> Some err | Inr u \<Rightarrow> None, ev @ evs))))"

definition connect ::
  "User \<Rightarrow> env \<Rightarrow> WebRTCManager \<Rightarrow> event list \<times> WebRTCManager" where
  "connect peer e w =
     (let peerId = username peer;
          (ev1, w1) = updateState peerId connecting w;
          h = nextHandle w1;
          ch = Suc h;
          w2 = w1\<lparr>connections :=
                    AList.update peerId
                      \<lparr>pc = h, dataChannel = Some \<lparr>channel = ch, readyState = rs_connecting\<rparr>,
                       state = connecting, pendingCandidates = [],
                       hasRemoteDescription = False\<rparr>
                      (connections w1),
                  nextHandle := Suc ch\<rparr>;
          w3 = w2\<lparr>aes := snd (generateSessionKey peerId (rnd e) (now e) (aes w2))\<rparr>;
          (thrown, ev4) = connect_offer peer h e w3;
          ev = ev1 @ [new_RTCPeerConnection h, createDataChannel h ch] @ ev4
      in case thrown of
           None \<Rightarrow> (ev, w3)
         | Some err \<Rightarrow>
             (let (ev5, w5) = updateState peerId failed w3
              in (ev @ (if callbacks w3 then [onError peerId err] else []) @ ev5, w5)))"

text \<open>
  \<open>sendMessage\<close> assigns nothing; it returns the manager as it was, beside the result.
  The object handed to \<open>JSON.stringify\<close> has the three properties of the envelope.
\<close>

definition sendMessage ::
  "jsstring \<Rightarrow> jsstring \<Rightarrow> env \<Rightarrow> WebRTCManager \<Rightarrow> bool \<times> event list \<times> WebRTCManager" where
  "sendMessage peerId message e w =
     (case map_of (connections w) peerId of
        None \<Rightarrow> (False, [], w)
      | Some conn \<Rightarrow>
          (case dataChannel conn of
             None \<Rightarrow> (False, [], w)
           | Some ch \<Rightarrow>
               if readyState ch \<noteq> rs_open then (False, [], w)
               else
                 (let toSend =
                        (case encrypt peerId message (rnd e) (aes w) of
                           Inr encrypted \<Rightarrow>
                             JSON_stringify [(js ''iv'', iv encrypted),
                                             (js ''ciphertext'', ciphertext encrypted),
                                             (js ''tag'', tag encrypted)]
                         | Inl err \<Rightarrow> message)
                  in (case send_error e of None \<Rightarrow> True | Some err \<Rightarrow> False,
                      [channel_send (channel ch) toSend (send_error e)], w))))"

definition disconnect :: "jsstring \<Rightarrow> WebRTCManager \<Rightarrow> event list \<times> WebRTCManager" where
  "disconnect peerId w =
     (let (ev1, w1) =
            (case map_of (connections w) peerId of
               Some conn \<Rightarrow>
                 ((case dataChannel conn of
                     Some ch \<Rightarrow> [channel_close (channel ch)] | None \<Rightarrow> [])
                  @ [pc_close (pc conn)],
                  w\<lparr>aes := destroySessionKey peerId (aes w),
                    connections := AList.delete peerId (connections w)\<rparr>)
             | None \<Rightarrow> ([], w));
          (ev2, w2) = stopPolling w1
      in (ev1 @ ev2, w2))"

definition getConnectionStatus :: "jsstring \<Rightarrow> WebRTCManager \<Rightarrow> ConnectionState" where
  "getConnectionStatus peerId w =
     (case map_of (connections w) peerId of Some conn \<Rightarrow> state conn | None \<Rightarrow> idle)"

text \<open>
  \<open>handleSignal\<close> after the payload has been decrypted and parsed: the dispatch on the
  type of the signal, an exception of the handler being caught and logged.
\<close>

datatype signal =
    OfferSignal SignalPayload
  | AnswerSignal SignalPayload
  | IceSignal "candidate option"

definition handleSignal ::
  "jsstring \<Rightarrow> signal \<Rightarrow> env \<Rightarrow> WebRTCManager \<Rightarrow> event list \<times> WebRTCManager" where
  "handleSignal peerId sig e w =
     (case sig of
        OfferSignal payload \<Rightarrow> snd (handleOffer peerId payload e w)
      | AnswerSignal payload \<Rightarrow> snd (handleAnswer peerId payload e w)
      | IceSignal cand \<Rightarrow> handleIceCandidate peerId cand w)"

text \<open>
  The check that every candidate in a list of calls is applied to a transport that a
  remote description was applied to earlier in the list (\<open>hs\<close> are the transports that
  had one before the list).
\<close>

fun applied_after_description :: "nat list \<Rightarrow> event list \<Rightarrow> bool" where
  "applied_after_description hs [] = True"
| "applied_after_description hs (setRemoteDescription h d None # es) =
     applied_after_description (h # hs) es"
| "applied_after_description hs (addIceCandidate h c # es) =
     (h \<in> set hs \<and> applied_after_description hs es)"
| "applied_after_description hs (ev # es) = applied_after_description hs es"

text \<open>Strings without unpaired surrogates, and stores whose keys all have 32 bytes.\<close>

fun well_formed_utf16 :: "nat list \<Rightarrow> bool" where
  "well_formed_utf16 [] = True"
| "well_formed_utf16 [c] = (\<not> is_lead c \<and> \<not> is_trail c)"
| "well_formed_utf16 (c # d # cs) =
     (if is_lead c then is_trail d \<and> well_formed_utf16 cs
      else \<not> is_trail c \<and> well_formed_utf16 (d # cs))"

definition well_formed :: "jsstring \<Rightarrow> bool" where
  "well_formed s = well_formed_utf16 (map unat s)"

text \<open>
  \<open>String.prototype.toWellFormed\<close>: the string with every surrogate that has no partner
  replaced by U+FFFD.
\<close>

fun toWellFormed_utf16 :: "nat list \<Rightarrow> nat list" where
  "toWellFormed_utf16 [] = []"
| "toWellFormed_utf16 [c] = (if is_lead c \<or> is_trail c then [65533] else [c])"
| "toWellFormed_utf16 (c # d # cs) =
     (if is_lead c then
        (if is_trail d then c # d # toWellFormed_utf16 cs
         else 65533 # toWellFormed_utf16 (d # cs))
      else if is_trail c then 65533 # toWellFormed_utf16 (d # cs)
      else c # toWellFormed_utf16 (d # cs))"

definition toWellFormed :: "jsstring \<Rightarrow> jsstring" where
  "toWellFormed s = map of_nat (toWellFormed_utf16 (map unat s))"

definition keys_32 :: "AESService \<Rightarrow> bool" where
  "keys_32 s = list_all (\<lambda>(peerId, entry). length (arrays s (key entry)) = 32) (sessionKeys s)"

section \<open>The async methods, from await to await\<close>

text \<open>
  An async method runs alone from one \<open>await\<close> to the next; while it waits, the timer,
  the application and other suspended methods run.  Here the methods of the manager are
  cut at their awaits.  A session object and its array of candidates are reached
  through the map and through the variables of suspended methods, so both live in a
  store and the map holds addresses: \<open>objects\<close> holds the session objects,
  \<open>queues\<close> the arrays, \<open>next_address\<close> is the address of the next object or array.
  The other fields are those of the class, \<open>tasks\<close> are the calls in progress and
  \<open>calls\<close> is the list of the calls made so far, in the order they were made.
  The outcome of an awaited call is given by the \<open>env\<close> of the step that makes the call
  and kept in the continuation until the call settles.  Every await is a cut, but for
  those with nothing between them and the next await or the return of the method,
  which are taken together with that one.  \<open>sendMessage\<close> and the callbacks of the
  transports take no part in the handling of candidates and are left out here.
\<close>

record PeerConnection' =
  pc' :: nat
  dataChannel' :: "DataChannel option"
  state' :: ConnectionState
  pendingCandidates' :: nat
  hasRemoteDescription' :: bool

text \<open>
  The \<open>try\<close> block a call is awaited in: that of \<open>connect\<close>, whose \<open>catch\<close> reports the
  error and the state \<open>failed\<close>, or that of \<open>handleSignal\<close>, whose \<open>catch\<close> only logs.
\<close>

datatype try_block = try_connect jsstring | try_handleSignal

text \<open>The caller \<open>processPendingCandidates\<close> returns to.\<close>

datatype caller = from_handleAnswer | from_handleOffer jsstring nat

text \<open>
  A suspended method: the call it awaits, with the variables it goes on with.
  \<open>flush_addIceCandidate r a i k\<close> is the loop of \<open>processPendingCandidates\<close> over the
  array \<open>a\<close> of the session object \<open>r\<close>, \<open>i\<close> being the next index.
\<close>

datatype continuation =
    connect_createOffer User nat "error + RTCSessionDescription"
  | connect_setLocalDescription User nat RTCSessionDescription "error option"
  | sendSignal_encrypt try_block User SignalType jsstring
  | sendSignal_post try_block "error option"
  | handleOffer_setRemoteDescription jsstring nat "error option"
  | handleOffer_processPendingCandidates jsstring nat
  | handleOffer_createAnswer jsstring nat "error + RTCSessionDescription"
  | handleOffer_setLocalDescription jsstring nat RTCSessionDescription "error option"
  | handleOffer_getUser jsstring RTCSessionDescription "User option"
  | handleAnswer_setRemoteDescription jsstring nat "error option"
  | handleIceCandidate_addIceCandidate
  | flush_addIceCandidate nat nat nat caller

text \<open>
  A call in progress: what it awaits (\<open>None\<close> between two signals of a poll and when it
  has returned) and, for a callback of the poll timer, the signals still to handle.
\<close>

datatype task = Task "continuation option" "(jsstring \<times> signal) list"

record Runtime =
  objects :: "nat \<Rightarrow> PeerConnection'"
  queues :: "nat \<Rightarrow> candidate list"
  next_address :: nat
  connections' :: "(jsstring \<times> nat) list"
  callbacks' :: bool
  pollingInterval' :: "nat option"
  currentUser' :: "jsstring option"
  aes' :: AESService
  nextHandle' :: nat
  tasks :: "task list"
  calls :: "event list"

definition runtime_init :: Runtime where
  "runtime_init =
     \<lparr>objects = (\<lambda>r. \<lparr>pc' = 0, dataChannel' = None, state' = idle, pendingCandidates' = 0,
                       hasRemoteDescription' = False\<rparr>),
      queues = (\<lambda>a. []), next_address = 0, connections' = [], callbacks' = False,
      pollingInterval' = None, currentUser' = None, aes' = aes_init, nextHandle' = 0,
      tasks = [], calls = []\<rparr>"

definition emit :: "event list \<Rightarrow> Runtime \<Rightarrow> Runtime" where
  "emit evs s = s\<lparr>calls := calls s @ evs\<rparr>"

definition startPolling' :: "env \<Rightarrow> Runtime \<Rightarrow> Runtime" where
  "startPolling' e s =
     (if pollingInterval' s \<noteq> None then s
      else emit [setInterval (timer e)] (s\<lparr>pollingInterval' := Some (timer e)\<rparr>))"

definition stopPolling' :: "Runtime \<Rightarrow> Runtime" where
  "stopPolling' s =
     (case pollingInterval' s of
        Some t \<Rightarrow> emit [clearInterval t] (s\<lparr>pollingInterval' := None\<rparr>)
      | None \<Rightarrow> s)"

definition init' :: "jsstring \<Rightarrow> env \<Rightarrow> Runtime \<Rightarrow> Runtime" where
  "init' user e s = startPolling' e (s\<lparr>callbacks' := True, currentUser' := Some user\<rparr>)"

definition updateState' :: "jsstring \<Rightarrow> ConnectionState \<Rightarrow> Runtime \<Rightarrow> Runtime" where
  "updateState' peerId st s =
     (let s1 = (case map_of (connections' s) peerId of
                  Some r \<Rightarrow> s\<lparr>objects := (objects s)(r := (objects s r)\<lparr>state' := st\<rparr>)\<rparr>
                | None \<Rightarrow> s)
      in if callbacks' s then emit [onStateChange peerId st] s1 else s1)"

text \<open>An exception reaching the \<open>catch\<close> of the \<open>try\<close> block.\<close>

fun caught :: "try_block \<Rightarrow> error \<Rightarrow> Runtime \<Rightarrow> Runtime" where
  "caught (try_connect peerId) err s =
     updateState' peerId failed (if callbacks' s then emit [onError peerId err] s else s)"
| "caught try_handleSignal err s = s"

text \<open>
  \<open>new_session\<close> is the object literal stored by \<open>connect\<close> and by \<open>handleOffer\<close>: a new
  object with a new, empty array, entered in the map under the peer.
\<close>

definition new_session ::
  "jsstring \<Rightarrow> nat \<Rightarrow> DataChannel option \<Rightarrow> Runtime \<Rightarrow> Runtime" where
  "new_session peerId h ch s =
     (let r = next_address s; a = Suc r
      in s\<lparr>objects := (objects s)(r := \<lparr>pc' = h, dataChannel' = ch, state' = connecting,
                                        pendingCandidates' = a, hasRemoteDescription' = False\<rparr>),
            queues := (queues s)(a := []),
            next_address := Suc a,
            connections' := AList.update peerId r (connections' s)\<rparr>)"

text \<open>\<open>sendSignal\<close>: up to the await of \<open>pgpService.encrypt\<close>, or of the request when the key is not used.\<close>

definition post_signal ::
  "try_block \<Rightarrow> User \<Rightarrow> SignalType \<Rightarrow> jsstring \<Rightarrow> env \<Rightarrow> Runtime \<Rightarrow> continuation option \<times> Runtime" where
  "post_signal t peer ty encrypted e s =
     (Some (sendSignal_post t (sendSignal_error e)),
      emit [api_sendSignal \<lparr>to_user = username peer, signal_type = ty,
                            encrypted_payload = encrypted\<rparr> (sendSignal_error e)] s)"

definition sendSignal' ::
  "try_block \<Rightarrow> User \<Rightarrow> SignalType \<Rightarrow> jsstring \<Rightarrow> env \<Rightarrow> Runtime \<Rightarrow> continuation option \<times> Runtime" where
  "sendSignal' t peer ty payload e s =
     (if pgp_public_key peer \<noteq> [] \<and> \<not> str_includes (pgp_public_key peer) (js ''mock'')
      then (Some (sendSignal_encrypt t peer ty payload),
            emit [pgpService_encrypt payload (pgp_public_key peer)] s)
      else post_signal t peer ty payload e s)"

text \<open>
  \<open>processPendingCandidates\<close>: \<open>flush_from r a i\<close> is the loop at index \<open>i\<close>.  It reads
  the length and the element of the array at each turn, as the iterator of an array
  does, calls \<open>addIceCandidate\<close> and waits; past the end it gives the session object a
  new, empty array and returns.  \<open>handleAnswer\<close> returns with it; \<open>handleOffer\<close>, which
  awaits it, goes on in a later step.
\<close>

fun returned :: "caller \<Rightarrow> Runtime \<Rightarrow> continuation option \<times> Runtime" where
  "returned from_handleAnswer s = (None, s)"
| "returned (from_handleOffer peerId h) s =
     (Some (handleOffer_processPendingCandidates peerId h), s)"

definition flush_from ::
  "nat \<Rightarrow> nat \<Rightarrow> nat \<Rightarrow> caller \<Rightarrow> Runtime \<Rightarrow> continuation option \<times> Runtime" where
  "flush_from r a i k s =
     (if i < length (queues s a)
      then (Some (flush_addIceCandidate r a (Suc i) k),
            emit [addIceCandidate (pc' (objects s r)) (queues s a ! i)] s)
      else returned k
             (s\<lparr>objects := (objects s)(r := (objects s r)\<lparr>pendingCandidates' := next_address s\<rparr>),
                queues := (queues s)(next_address s := []),
                next_address := Suc (next_address s)\<rparr>))"

definition processPendingCandidates' ::
  "jsstring \<Rightarrow> caller \<Rightarrow> Runtime \<Rightarrow> continuation option \<times> Runtime" where
  "processPendingCandidates' peerId k s =
     (case map_of (connections' s) peerId of
        None \<Rightarrow> returned k s
      | Some r \<Rightarrow> flush_from r (pendingCandidates' (objects s r)) 0 k s)"

text \<open>The methods up to their first await.\<close>

definition connect' :: "User \<Rightarrow> env \<Rightarrow> Runtime \<Rightarrow> continuation option \<times> Runtime" where
  "connect' peer e s =
     (let peerId = username peer;
          s1 = updateState' peerId connecting s;
          h = nextHandle' s1;
          ch = Suc h;
          s2 = new_session peerId h (Some \<lparr>channel = ch, readyState = rs_connecting\<rparr>)
                 (emit [new_RTCPeerConnection h, createDataChannel h ch] (s1\<lparr>nextHandle' := Suc ch\<rparr>));
          s3 = s2\<lparr>aes' := snd (generateSessionKey peerId (rnd e) (now e) (aes' s2))\<rparr>
      in (Some (connect_createOffer peer h (createOffer_result e)), emit [createOffer h] s3))"

definition handleOffer_respond' ::
  "jsstring \<Rightarrow> SignalPayload \<Rightarrow> env \<Rightarrow> Runtime \<Rightarrow> continuation option \<times> Runtime" where
  "handleOffer_respond' peerId payload e s =
     (let s1 = updateState' peerId connecting s;
          s2 = (case aesKey payload of
                  Some k \<Rightarrow>
                    if k \<noteq> [] then s1\<lparr>aes' := setSessionKey peerId k (now e) (aes' s1)\<rparr> else s1
                | None \<Rightarrow> s1);
          h = nextHandle' s2;
          s3 = new_session peerId h None (emit [new_RTCPeerConnection h] (s2\<lparr>nextHandle' := Suc h\<rparr>));
          desc = \<lparr>sdp = sdp payload, type = type payload\<rparr>
      in (Some (handleOffer_setRemoteDescription peerId h (setRemoteDescription_error e)),
          emit [setRemoteDescription h desc (setRemoteDescription_error e)] s3))"

text \<open>\<open>handleOffer\<close> from \<open>createAnswer\<close> on, called on its own transport.\<close>

definition handleOffer_answer' ::
  "jsstring \<Rightarrow> nat \<Rightarrow> env \<Rightarrow> Runtime \<Rightarrow> continuation option \<times> Runtime" where
  "handleOffer_answer' peerId h e s =
     (Some (handleOffer_createAnswer peerId h (createAnswer_result e)), emit [createAnswer h] s)"

definition handleOffer' ::
  "jsstring \<Rightarrow> SignalPayload \<Rightarrow> env \<Rightarrow> Runtime \<Rightarrow> continuation option \<times> Runtime" where
  "handleOffer' peerId payload e s =
     (case map_of (connections' s) peerId of
        Some existingConn \<Rightarrow>
          if (case currentUser' s of None \<Rightarrow> False | Some u \<Rightarrow> u \<noteq> [] \<and> u > peerId)
          then (None, s)
          else handleOffer_respond' peerId payload e
                 ((emit [pc_close (pc' (objects s existingConn))] s)
                    \<lparr>connections' := AList.delete peerId (connections' s)\<rparr>)
      | None \<Rightarrow> handleOffer_respond' peerId payload e s)"

definition handleAnswer' ::
  "jsstring \<Rightarrow> SignalPayload \<Rightarrow> env \<Rightarrow> Runtime \<Rightarrow> continuation option \<times> Runtime" where
  "handleAnswer' peerId payload e s =
     (case map_of (connections' s) peerId of
        None \<Rightarrow> (None, s)
      | Some conn \<Rightarrow>
          if hasRemoteDescription' (objects s conn) then (None, s)
          else (Some (handleAnswer_setRemoteDescription peerId conn (setRemoteDescription_error e)),
                emit [setRemoteDescription (pc' (objects s conn))
                        \<lparr>sdp = sdp payload, type = type payload\<rparr> (setRemoteDescription_error e)] s))"

definition handleIceCandidate' ::
  "jsstring \<Rightarrow> candidate option \<Rightarrow> Runtime \<Rightarrow> continuation option \<times> Runtime" where
  "handleIceCandidate' peerId cand s =
     (case map_of (connections' s) peerId of
        None \<Rightarrow> (None, s)
      | Some conn \<Rightarrow>
          (case cand of
             None \<Rightarrow> (None, s)
           | Some c \<Rightarrow>
               if \<not> hasRemoteDescription' (objects s conn)
               then (None, s\<lparr>queues := (queues s)(pendingCandidates' (objects s conn) :=
                                queues s (pendingCandidates' (objects s conn)) @ [c])\<rparr>)
               else (Some handleIceCandidate_addIceCandidate,
                     emit [addIceCandidate (pc' (objects s conn)) c] s)))"

definition handleSignal' ::
  "jsstring \<Rightarrow> signal \<Rightarrow> env \<Rightarrow> Runtime \<Rightarrow> continuation option \<times> Runtime" where
  "handleSignal' peerId sig e s =
     (case sig of
        OfferSignal payload \<Rightarrow> handleOffer' peerId payload e s
      | AnswerSignal payload \<Rightarrow> handleAnswer' peerId payload e s
      | IceSignal cand \<Rightarrow> handleIceCandidate' peerId cand s)"

definition disconnect' :: "jsstring \<Rightarrow> Runtime \<Rightarrow> Runtime" where
  "disconnect' peerId s =
     stopPolling'
       (case map_of (connections' s) peerId of
          Some conn \<Rightarrow>
            (emit ((case dataChannel' (objects s conn) of
                      Some ch \<Rightarrow> [channel_close (channel ch)] | None \<Rightarrow> [])
                   @ [pc_close (pc' (objects s conn))]) s)
              \<lparr>aes' := destroySessionKey peerId (aes' s),
               connections' := AList.delete peerId (connections' s)\<rparr>
        | None \<Rightarrow> s)"

text \<open>
  A suspended method goes on when the call it awaits has settled: with the next
  statement when the call succeeded, in the \<open>catch\<close> of its \<open>try\<close> block when it failed.
\<close>

fun resume :: "continuation \<Rightarrow> env \<Rightarrow> Runtime \<Rightarrow> continuation option \<times> Runtime" where
  "resume (connect_createOffer peer h res) e s =
     (case res of
        Inl err \<Rightarrow> (None, caught (try_connect (username peer)) err s)
      | Inr off \<Rightarrow>
          (Some (connect_setLocalDescription peer h off (setLocalDescription_error e)),
           emit [setLocalDescription h off (setLocalDescription_error e)] s))"
| "resume (connect_setLocalDescription peer h off res) e s =
     (case res of
        Some err \<Rightarrow> (None, caught (try_connect (username peer)) err s)
      | None \<Rightarrow>
          (let k = (case exportKey (username peer) (aes' s) of Some t \<Rightarrow> t | None \<Rightarrow> [])
           in sendSignal' (try_connect (username peer)) peer offer
                (JSON_stringify [(js ''sdp'', sdp off), (js ''type'', type off), (js ''aesKey'', k)])
                e s))"
| "resume (sendSignal_encrypt t peer ty payload) e s =
     post_signal t peer ty
       (case pgp_encrypt payload (pgp_public_key peer) of Inr c \<Rightarrow> c | Inl err \<Rightarrow> payload) e s"
| "resume (sendSignal_post t res) e s =
     (case res of Some err \<Rightarrow> (None, caught t err s) | None \<Rightarrow> (None, s))"
| "resume (handleOffer_setRemoteDescription peerId h res) e s =
     (case res of
        Some err \<Rightarrow> (None, caught try_handleSignal err s)
      | None \<Rightarrow>
          (case map_of (connections' s) peerId of
             Some conn \<Rightarrow>
               processPendingCandidates' peerId (from_handleOffer peerId h)
                 (s\<lparr>objects := (objects s)(conn := (objects s conn)\<lparr>hasRemoteDescription' := True\<rparr>)\<rparr>)
           | None \<Rightarrow> handleOffer_answer' peerId h e s))"
| "resume (handleOffer_processPendingCandidates peerId h) e s = handleOffer_answer' peerId h e s"
| "resume (handleOffer_createAnswer peerId h res) e s =
     (case res of
        Inl err \<Rightarrow> (None, caught try_handleSignal err s)
      | Inr ans \<Rightarrow>
          (Some (handleOffer_setLocalDescription peerId h ans (setLocalDescription_error e)),
           emit [setLocalDescription h ans (setLocalDescription_error e)] s))"
| "resume (handleOffer_setLocalDescription peerId h ans res) e s =
     (case res of
        Some err \<Rightarrow> (None, caught try_handleSignal err s)
      | None \<Rightarrow> (Some (handleOffer_getUser peerId ans (getUser_result e)), s))"
| "resume (handleOffer_getUser peerId ans res) e s =
     (case res of
        None \<Rightarrow> (None, s)
      | Some peer \<Rightarrow>
          sendSignal' try_handleSignal peer answer
            (JSON_stringify [(js ''sdp'', sdp ans), (js ''type'', type ans)]) e s)"
| "resume (handleAnswer_setRemoteDescription peerId conn res) e s =
     (case res of
        Some err \<Rightarrow> (None, caught try_handleSignal err s)
      | None \<Rightarrow>
          processPendingCandidates' peerId from_handleAnswer
            (s\<lparr>objects := (objects s)(conn := (objects s conn)\<lparr>hasRemoteDescription' := True\<rparr>)\<rparr>))"
| "resume handleIceCandidate_addIceCandidate e s = (None, s)"
| "resume (flush_addIceCandidate r a i k) e s = flush_from r a i k s"

text \<open>
  What happens, one thing at a time: the application calls \<open>init\<close>, \<open>connect\<close> or
  \<open>disconnect\<close>; the poll timer fires and its request returns a list of signals, each
  with its sender, decrypted and parsed; or the call that task \<open>i\<close> awaits settles and
  the task runs to its next await, which for a callback of the timer between two
  signals is the start of the handler of the next signal.  The timer fires only while
  it is set.
\<close>

datatype action =
    Init jsstring env
  | Connect User env
  | Disconnect jsstring
  | Tick "(jsstring \<times> signal) list"
  | Resume nat env

definition suspend :: "nat \<Rightarrow> (jsstring \<times> signal) list \<Rightarrow> continuation option \<times> Runtime \<Rightarrow> Runtime" where
  "suspend i sigs ks = (snd ks)\<lparr>tasks := (tasks (snd ks))[i := Task (fst ks) sigs]\<rparr>"

fun step :: "action \<Rightarrow> Runtime \<Rightarrow> Runtime" where
  "step (Init user e) s = init' user e s"
| "step (Connect peer e) s =
     suspend (length (tasks s)) [] (connect' peer e (s\<lparr>tasks := tasks s @ [Task None []]\<rparr>))"
| "step (Disconnect peerId) s = disconnect' peerId s"
| "step (Tick sigs) s =
     (if pollingInterval' s = None then s else s\<lparr>tasks := tasks s @ [Task None sigs]\<rparr>)"
| "step (Resume i e) s =
     (if i < length (tasks s)
      then (case tasks s ! i of
              Task (Some k) sigs \<Rightarrow> suspend i sigs (resume k e s)
            | Task None [] \<Rightarrow> s
            | Task None ((peerId, sig) # sigs) \<Rightarrow> suspend i sigs (handleSignal' peerId sig e s))
      else s)"

definition run :: "action list \<Rightarrow> Runtime \<Rightarrow> Runtime" where
  "run acts s = fold step acts s"

text \<open>The calls made on transports, among a list of calls.\<close>

fun transport_calls :: "event list \<Rightarrow> event list" where
  "transport_calls [] = []"
| "transport_calls (new_RTCPeerConnection h # es) = new_RTCPeerConnection h # transport_calls es"
| "transport_calls (setRemoteDescription h d r # es) = setRemoteDescription h d r # transport_calls es"
| "transport_calls (addIceCandidate h c # es) = addIceCandidate h c # transport_calls es"
| "transport_calls (ev # es) = transport_calls es"

section \<open>Example states\<close>

text \<open>
  Two users who connect to each other: \<open>alice_manager\<close> is the manager of \<open>@alice\<close>
  after \<open>init\<close> and \<open>connect\<close> to \<open>@bob\<close>, \<open>bob_manager\<close> the manager of \<open>@bob\<close>
  after \<open>init\<close> and \<open>connect\<close> to \<open>@alice\<close>.  \<open>alice_idle\<close> is after \<open>init\<close> alone,
  \<open>alice_answered\<close> after the answer of \<open>@bob\<close>, \<open>alice_open\<close> once the data channel
  has opened.  \<open>bob_keyed\<close> is a key store holding one generated key, for \<open>@bob\<close>.
\<close>

definition alice :: jsstring where "alice = js ''@alice''"

definition bob :: jsstring where "bob = js ''@bob''"

definition rnd0 :: "nat \<Rightarrow> byte" where "rnd0 i = of_nat (7 * i + 1)"

definition bob_user :: User where
  "bob_user = \<lparr>username = bob, pgp_public_key = js ''mock-public-key-for-@bob'', is_online = True\<rparr>"

definition env0 :: env where
  "env0 = \<lparr>now = 1000, rnd = rnd0, timer = 1,
           createOffer_result = Inr \<lparr>sdp = js ''v=0'', type = js ''offer''\<rparr>,
           createAnswer_result = Inr \<lparr>sdp = js ''v=0'', type = js ''answer''\<rparr>,
           setLocalDescription_error = None, setRemoteDescription_error = None,
           getUser_result = Some bob_user, sendSignal_error = None, send_error = None\<rparr>"

definition env_send_fails :: env where
  "env_send_fails = env0\<lparr>send_error := Some (Error (js ''send failed''))\<rparr>"

definition alice_user :: User where
  "alice_user = \<lparr>username = alice, pgp_public_key = [], is_online = True\<rparr>"

definition carol_user :: User where
  "carol_user = \<lparr>username = js ''@carol'', pgp_public_key = js ''-----BEGIN PGP PUBLIC KEY-----'', is_online = True\<rparr>"

definition candidate1 :: candidate where "candidate1 = js ''candidate:1''"

definition candidate2 :: candidate where "candidate2 = js ''candidate:2''"

definition answer_payload :: SignalPayload where
  "answer_payload = \<lparr>sdp = js ''v=0'', type = js ''answer'', aesKey = None\<rparr>"

definition offer_payload :: SignalPayload where
  "offer_payload = \<lparr>sdp = js ''v=0'', type = js ''offer'', aesKey = Some (js ''AAAA'')\<rparr>"

definition session0 :: PeerConnection where
  "session0 = \<lparr>pc = 0, dataChannel = Some \<lparr>channel = 1, readyState = rs_connecting\<rparr>,
      state = connecting, pendingCandidates = [], hasRemoteDescription = False\<rparr>"

definition bob_keyed :: AESService where
  "bob_keyed = snd (generateSessionKey bob rnd0 1000 aes_init)"

definition alice_idle :: WebRTCManager where
  "alice_idle = snd (init alice env0 manager_init)"

definition alice_manager :: WebRTCManager where
  "alice_manager = snd (connect bob_user env0 (snd (init alice env0 manager_init)))"

definition bob_manager :: WebRTCManager where
  "bob_manager = snd (connect alice_user env0 (snd (init bob env0 manager_init)))"

definition alice_answered :: WebRTCManager where
  "alice_answered = snd (snd (handleAnswer bob answer_payload env0 alice_manager))"

definition alice_open :: WebRTCManager where
  "alice_open = alice_answered\<lparr>connections :=
      [(bob, session0\<lparr>dataChannel := Some \<lparr>channel = 1, readyState = rs_open\<rparr>,
                      state := connected, hasRemoteDescription := True\<rparr>)]\<rparr>"

definition lone_surrogate :: jsstring where
  "lone_surrogate = [0xD800]"

definition short_key :: jsstring where "short_key = js ''AAAA''"

definition candidate3 :: candidate where "candidate3 = js ''candidate:3''"

text \<open>
  Five runs of the manager of \<open>@alice\<close>.  In \<open>ordered_schedule\<close> she connects to
  \<open>@bob\<close>, a poll delivers two candidates and the answer of \<open>@bob\<close>, a later poll a third
  candidate, and every handler returns before the next thing happens.
  \<open>racing_schedule\<close> has the same calls and signals, but the second poll comes back
  while the handler of the answer waits for \<open>setRemoteDescription\<close>, and its candidate
  is handled while the loop over the queue waits for \<open>addIceCandidate\<close> on the first
  queued candidate.  In \<open>glare_schedule\<close> a poll delivers an offer of \<open>@bob\<close> and a
  candidate; while the handler of the offer waits for \<open>setRemoteDescription\<close>, the
  application calls \<open>connect\<close> to \<open>@bob\<close>; then the handler of the offer runs to its
  end and the candidate is handled.  \<open>glare_queued_schedule\<close> is the same with the
  candidate delivered by a second poll and handled before the handler of the offer
  goes on.  In \<open>offer_schedule\<close> a poll delivers the offer alone and its handler runs to
  its end.
\<close>

definition ordered_schedule :: "action list" where
  "ordered_schedule =
     [Init alice env0, Connect bob_user env0, Resume 0 env0, Resume 0 env0, Resume 0 env0,
      Tick [(bob, IceSignal (Some candidate1)), (bob, IceSignal (Some candidate2)),
            (bob, AnswerSignal answer_payload)],
      Resume 1 env0, Resume 1 env0, Resume 1 env0,
      Resume 1 env0, Resume 1 env0, Resume 1 env0,
      Tick [(bob, IceSignal (Some candidate3))],
      Resume 2 env0, Resume 2 env0]"

definition racing_schedule :: "action list" where
  "racing_schedule =
     [Init alice env0, Connect bob_user env0, Resume 0 env0, Resume 0 env0, Resume 0 env0,
      Tick [(bob, IceSignal (Some candidate1)), (bob, IceSignal (Some candidate2)),
            (bob, AnswerSignal answer_payload)],
      Resume 1 env0, Resume 1 env0, Resume 1 env0,
      Tick [(bob, IceSignal (Some candidate3))],
      Resume 1 env0, Resume 2 env0, Resume 1 env0, Resume 1 env0, Resume 2 env0]"

definition glare_schedule :: "action list" where
  "glare_schedule =
     [Init alice env0,
      Tick [(bob, OfferSignal offer_payload), (bob, IceSignal (Some candidate1))],
      Resume 0 env0,
      Connect bob_user env0,
      Resume 0 env0, Resume 0 env0, Resume 0 env0, Resume 0 env0, Resume 0 env0,
      Resume 0 env0, Resume 0 env0]"

definition glare_queued_schedule :: "action list" where
  "glare_queued_schedule =
     [Init alice env0,
      Tick [(bob, OfferSignal offer_payload)],
      Resume 0 env0,
      Connect bob_user env0,
      Tick [(bob, IceSignal (Some candidate1))],
      Resume 2 env0,
      Resume 0 env0]"

definition offer_schedule :: "action list" where
  "offer_schedule =
     [Init alice env0,
      Tick [(bob, OfferSignal offer_payload)],
      Resume 0 env0, Resume 0 env0, Resume 0 env0, Resume 0 env0, Resume 0 env0,
      Resume 0 env0, Resume 0 env0]"

section \<open>Lemmas: the buffer conversions\<close>

lemma b64char_props: "i < 64 \<Longrightarrow> is_b64 (b64char i) \<and> b64char i \<noteq> 61 \<and> b64val (b64char i) = i \<and> b64char i < 128"
  by (auto simp: b64char_def is_b64_def b64val_def)

lemma b64char_range: "b64char i < 128"
  by (auto simp: b64char_def)

lemma sext_bounds: "a div 4 < 64" "(a mod 4) * 16 + b div 16 < 64" "(b mod 16) * 4 + c div 64 < 64" "c mod 64 < 64"
   "(a mod 4) * 16 < 64" "(b mod 16) * 4 < 64"
  if "a < 256" "b < 256" "c < (256::nat)"
  using that by simp_all

lemma b64_roundtrip_nat: "\<forall>b\<in>set bs. b < 256 \<Longrightarrow> b64_decode (b64_encode bs) = bs"
  unfolding b64_decode_def
proof (induction bs rule: b64_encode.induct)
  case 1 show ?case by simp
next
  case (2 a) 
  then have a: "a < 256" by simp
  show ?case using a by (simp add: b64char_props sext_bounds)
next
  case (3 a b)
  then have a: "a < 256" "b < 256" by simp_all
  show ?case using a by (simp add: b64char_props sext_bounds)
next
  case (4 a b c bs)
  then have a: "a < 256" "b < 256" "c < 256" by simp_all
  from 4 have IH: "b64_groups (map b64val (filter is_b64 (takeWhile (\<lambda>c. c \<noteq> 61) (b64_encode bs)))) = bs" by simp
  show ?case using a IH by (simp add: b64char_props sext_bounds)
qed

lemma b64_encode_range: "\<forall>c\<in>set (b64_encode bs). c < 128"
  by (induction bs rule: b64_encode.induct) (simp_all add: b64char_range)

lemma split3: "(cp div 4096) * 4096 + ((cp div 64) mod 64) * 64 + cp mod 64 = (cp::nat)"
proof -
  define y where "y = cp div 64"
  define z where "z = y div 64"
  define r1 where "r1 = cp mod 64"
  define r2 where "r2 = y mod 64"
  have e1: "cp = y * 64 + r1" unfolding y_def r1_def by simp
  have e2: "y = z * 64 + r2" unfolding z_def r2_def by simp
  have e3: "cp div 4096 = z" unfolding z_def y_def by (simp add: div_mult2_eq)
  have "z * 4096 + r2 * 64 + r1 = cp" using e1 e2 by linarith
  then show ?thesis unfolding e3 unfolding r2_def r1_def y_def .
qed

lemma split4: "(cp div 262144) * 262144 + ((cp div 4096) mod 64) * 4096 + ((cp div 64) mod 64) * 64 + cp mod 64 = (cp::nat)"
proof -
  define y where "y = cp div 4096"
  define z where "z = y div 64"
  define r2 where "r2 = y mod 64"
  define w where "w = ((cp div 64) mod 64) * 64 + cp mod 64"
  have e1: "y * 4096 + w = cp" unfolding y_def w_def using split3[of cp] by simp
  have e2: "y = z * 64 + r2" unfolding z_def r2_def by simp
  have e3: "cp div 262144 = z" unfolding z_def y_def by (simp add: div_mult2_eq)
  have "z * 262144 + r2 * 4096 + w = cp" using e1 e2 by linarith
  then show ?thesis unfolding e3 unfolding r2_def w_def y_def by simp
qed

lemma cont_byte: "is_cont (128 + u mod 64)" "(128 + u mod 64) mod 64 = u mod 64"
proof -
  define r where "r = u mod 64"
  have r: "r < 64" unfolding r_def by simp
  have "(r + 2 * 64) div 64 = 2 + r div 64" by (rule div_mult_self1) simp
  then have "(128 + r) div 64 = 2" using r by (simp add: add.commute)
  then show "is_cont (128 + u mod 64)" unfolding is_cont_def r_def .
  have "(r + 2 * 64) mod 64 = r mod 64" by (rule mod_mult_self1)
  then have "(128 + r) mod 64 = r" using r by (simp add: add.commute)
  then show "(128 + u mod 64) mod 64 = u mod 64" unfolding r_def .
qed

lemma lead_mods: "t < 32 \<Longrightarrow> (192 + t) mod 32 = (t::nat)" "t < 16 \<Longrightarrow> (224 + t) mod 16 = (t::nat)"
   "t < 16 \<Longrightarrow> (240 + t) mod 16 = (t::nat)"
proof -
  have "(t + 6 * 32) mod 32 = t mod 32" by (rule mod_mult_self1)
  then show "t < 32 \<Longrightarrow> (192 + t) mod 32 = (t::nat)" by (simp add: add.commute)
  have "(t + 14 * 16) mod 16 = t mod 16" by (rule mod_mult_self1)
  then show "t < 16 \<Longrightarrow> (224 + t) mod 16 = (t::nat)" by (simp add: add.commute)
  have "(t + 15 * 16) mod 16 = t mod 16" by (rule mod_mult_self1)
  then show "t < 16 \<Longrightarrow> (240 + t) mod 16 = (t::nat)" by (simp add: add.commute)
qed

lemma decode_seq1: "b0 < 128 \<Longrightarrow> utf8_decode (b0 # bs) = b0 # utf8_decode bs"
  by (simp add: utf16_units_def bytesPerSequence_def)

lemma decode_seq2:
  assumes "b0 > 191" "b0 \<le> 223" "is_cont b1" "(b0 mod 32) * 64 + b1 mod 64 = cp" "cp > 127"
  shows "utf8_decode (b0 # b1 # bs) = utf16_units cp @ utf8_decode bs"
  using assms by (simp add: bytesPerSequence_def)

lemma decode_seq3:
  assumes "b0 > 223" "b0 \<le> 239" "is_cont b1" "is_cont b2"
    "(b0 mod 16) * 4096 + (b1 mod 64) * 64 + b2 mod 64 = cp" "cp > 2047" "cp < 55296 \<or> cp > 57343"
  shows "utf8_decode (b0 # b1 # b2 # bs) = utf16_units cp @ utf8_decode bs"
  using assms by (simp add: bytesPerSequence_def)

lemma decode_seq4:
  assumes "b0 > 239" "is_cont b1" "is_cont b2" "is_cont b3"
    "(b0 mod 16) * 262144 + (b1 mod 64) * 4096 + (b2 mod 64) * 64 + b3 mod 64 = cp"
    "cp > 65535" "cp < 1114112"
  shows "utf8_decode (b0 # b1 # b2 # b3 # bs) = utf16_units cp @ utf8_decode bs"
  using assms by (simp add: bytesPerSequence_def)

lemma decode_cp1: "cp < 128 \<Longrightarrow> utf8_decode (utf8_cp cp @ bs) = cp # utf8_decode bs"
  by (simp add: utf8_cp_def decode_seq1 del: utf8_decode.simps)

lemma decode_cp2:
  assumes "128 \<le> cp" "cp < 2048"
  shows "utf8_decode (utf8_cp cp @ bs) = cp # utf8_decode bs"
proof -
  define t where "t = cp div 64"
  have t: "t < 32" using assms unfolding t_def by simp
  have v: "(192 + t) mod 32 * 64 + (128 + cp mod 64) mod 64 = cp"
    unfolding lead_mods(1)[OF t] cont_byte(2) unfolding t_def by simp
  have "utf8_decode ((192 + t) # (128 + cp mod 64) # bs) = utf16_units cp @ utf8_decode bs"
    by (rule decode_seq2[OF _ _ cont_byte(1) v]) (use t assms in simp_all)
  then show ?thesis using assms by (simp add: utf8_cp_def utf16_units_def t_def)
qed

lemma decode_cp3:
  assumes "2048 \<le> cp" "cp < 65536" "\<not> is_lead cp" "\<not> is_trail cp"
  shows "utf8_decode (utf8_cp cp @ bs) = cp # utf8_decode bs"
proof -
  define t where "t = cp div 4096"
  have t: "t < 16" using assms unfolding t_def by simp
  have v: "(224 + t) mod 16 * 4096 + (128 + (cp div 64) mod 64) mod 64 * 64 + (128 + cp mod 64) mod 64 = cp"
    unfolding lead_mods(2)[OF t] cont_byte(2) unfolding t_def by (rule split3)
  have s: "cp < 55296 \<or> cp > 57343" using assms by (auto simp: is_lead_def is_trail_def)
  have "utf8_decode ((224 + t) # (128 + (cp div 64) mod 64) # (128 + cp mod 64) # bs) = utf16_units cp @ utf8_decode bs"
    by (rule decode_seq3[OF _ _ cont_byte(1) cont_byte(1) v _ s]) (use t assms in simp_all)
  then show ?thesis using assms by (simp add: utf8_cp_def utf16_units_def t_def)
qed

lemma decode_cp4:
  assumes "65536 \<le> cp" "cp < 1114112"
  shows "utf8_decode (utf8_cp cp @ bs) = utf16_units cp @ utf8_decode bs"
proof -
  define t where "t = cp div 262144"
  have t: "t < 16" using assms unfolding t_def by simp
  have v: "(240 + t) mod 16 * 262144 + (128 + (cp div 4096) mod 64) mod 64 * 4096
           + (128 + (cp div 64) mod 64) mod 64 * 64 + (128 + cp mod 64) mod 64 = cp"
    unfolding lead_mods(3)[OF t] cont_byte(2) unfolding t_def by (rule split4)
  have "utf8_decode ((240 + t) # (128 + (cp div 4096) mod 64) # (128 + (cp div 64) mod 64) # (128 + cp mod 64) # bs)
          = utf16_units cp @ utf8_decode bs"
    by (rule decode_seq4[OF _ cont_byte(1) cont_byte(1) cont_byte(1) v]) (use assms in simp_all)
  then show ?thesis using assms by (simp add: utf8_cp_def t_def)
qed

lemma pair_units:
  assumes "is_lead c" "is_trail d"
  shows "utf16_units ((c - 55296) * 1024 + (d - 56320) + 65536) = [c, d]"
    "65536 \<le> (c - 55296) * 1024 + (d - 56320) + 65536"
    "(c - 55296) * 1024 + (d - 56320) + 65536 < 1114112"
proof -
  define h where "h = c - 55296"
  define l where "l = d - 56320"
  have h: "h < 1024" "c = 55296 + h" using assms by (auto simp: is_lead_def h_def)
  have l: "l < 1024" "d = 56320 + l" using assms by (auto simp: is_trail_def l_def)
  have "(h * 1024 + l) div 1024 = h" "(h * 1024 + l) mod 1024 = l" using l(1) by simp_all
  then show "utf16_units ((c - 55296) * 1024 + (d - 56320) + 65536) = [c, d]"
    using h l by (simp add: utf16_units_def h_def[symmetric] l_def[symmetric])
  show "65536 \<le> (c - 55296) * 1024 + (d - 56320) + 65536" by simp
  have "h * 1024 \<le> 1023 * 1024" using h(1) by simp
  then show "(c - 55296) * 1024 + (d - 56320) + 65536 < 1114112"
    using l(1) unfolding h_def[symmetric] l_def[symmetric] by simp
qed

lemma decode_bmp:
  assumes "cp < 65536" "\<not> is_lead cp" "\<not> is_trail cp"
  shows "utf8_decode (utf8_cp cp @ bs) = cp # utf8_decode bs"
proof -
  consider "cp < 128" | "128 \<le> cp" "cp < 2048" | "2048 \<le> cp" by linarith
  then show ?thesis
  proof cases
    case 1 then show ?thesis by (rule decode_cp1)
  next
    case 2 then show ?thesis by (rule decode_cp2)
  next
    case 3 then show ?thesis using assms by (rule decode_cp3)
  qed
qed

lemma utf8_roundtrip_nat:
  "well_formed_utf16 cs \<Longrightarrow> \<forall>c\<in>set cs. c < 65536 \<Longrightarrow> utf8_decode (utf8_encode cs) = cs"
proof (induction cs rule: utf8_encode.induct)
  case 1 show ?case by simp
next
  case (2 c)
  then have "c < 65536" "\<not> is_lead c" "\<not> is_trail c" by simp_all
  from decode_bmp[OF this, of "[]"] 2 show ?case by simp
next
  case (3 c d cs)
  show ?case
  proof (cases "is_lead c")
    case True
    with "3.prems" have d: "is_trail d" and wf: "well_formed_utf16 cs" and r: "\<forall>c\<in>set cs. c < 65536" by simp_all
    from "3.IH"(1)[OF True d wf r] have IH: "utf8_decode (utf8_encode cs) = cs" .
    have "utf8_decode (utf8_cp ((c - 55296) * 1024 + (d - 56320) + 65536) @ utf8_encode cs) = [c, d] @ utf8_decode (utf8_encode cs)" 
      using decode_cp4[OF pair_units(2,3)[OF True d]] pair_units(1)[OF True d] by simp
    then show ?thesis using True d IH by simp
  next
    case False
    with "3.prems" have c: "\<not> is_trail c" and wf: "well_formed_utf16 (d # cs)" and r: "\<forall>c\<in>set (d # cs). c < 65536" and c2: "c < 65536" by simp_all
    from "3.IH"(4)[OF False c wf r] have IH: "utf8_decode (utf8_encode (d # cs)) = d # cs" .
    show ?thesis using False c IH decode_bmp[OF c2 False c, of "utf8_encode (d # cs)"] by simp
  qed
qed

lemma utf8_cp_range: 
  assumes "cp < 1114112" shows "\<forall>b\<in>set (utf8_cp cp). b < 256"
proof -
  have a: "cp < 2048 \<Longrightarrow> cp div 64 < 32" by simp
  have b: "cp < 65536 \<Longrightarrow> cp div 4096 < 16" by simp
  have c: "cp div 262144 < 16" using assms by simp
  have d: "128 + u mod 64 < 256" for u :: nat
  proof - have "u mod 64 < 64" by simp then show ?thesis by linarith qed
  show ?thesis unfolding utf8_cp_def using a b c d by (auto simp del: mod_less_divisor)
qed

lemma utf8_encode_range: "\<forall>c\<in>set cs. c < 65536 \<Longrightarrow> \<forall>b\<in>set (utf8_encode cs). b < 256"
proof (induction cs rule: utf8_encode.induct)
  case 1 show ?case by simp
next
  case (2 c) then show ?case using utf8_cp_range[of c] by (simp add: replacement_def)
next
  case (3 c d cs)
  from "3.prems" have r: "c < 1114112" "\<forall>c\<in>set cs. c < 65536" "\<forall>c\<in>set (d # cs). c < 65536" by simp_all
  have p: "is_lead c \<Longrightarrow> is_trail d \<Longrightarrow> \<forall>b\<in>set (utf8_cp ((c - 55296) * 1024 + (d - 56320) + 65536)). b < 256"
    using pair_units(3)[of c d] utf8_cp_range by blast
  have q: "\<forall>b\<in>set (utf8_cp c). b < 256" using r(1) by (rule utf8_cp_range)
  show ?case
  proof (cases "is_lead c")
    case True
    show ?thesis
    proof (cases "is_trail d")
      case t: True
      from "3.IH"(1)[OF True t r(2)] p[OF True t] True t show ?thesis by auto
    next
      case f: False
      from "3.IH"(2)[OF True f r(3)] True f show ?thesis by (simp add: replacement_def)
    qed
  next
    case False
    show ?thesis
    proof (cases "is_trail c")
      case t: True
      from "3.IH"(3)[OF False t r(3)] False t show ?thesis by (simp add: replacement_def)
    next
      case f: False
      from "3.IH"(4)[OF False f r(3)] q False f show ?thesis by auto
    qed
  qed
qed

lemma unat_byte: "unat (b :: byte) < 256"
  using unsigned_less[of b, where 'a=nat] by simp

lemma unat_unit: "unat (c :: 16 word) < 65536"
  using unsigned_less[of c, where 'a=nat] by simp

lemma bytes_back: "\<forall>b\<in>set xs. b < 256 \<Longrightarrow> map unat (map of_nat xs :: byte list) = xs"
  by (induction xs) (simp_all add: unat_of_nat)

lemma units_back: "\<forall>c\<in>set xs. c < 65536 \<Longrightarrow> map unat (map of_nat xs :: jsstring) = xs"
  by (induction xs) (simp_all add: unat_of_nat)

lemma of_nat_unat_map: "map of_nat (map unat ws) = (ws :: 'a::len word list)"
  by (induction ws) simp_all

lemma base64_roundtrip: "from_base64 (toString_base64 bs) = bs"
proof -
  have r: "\<forall>b\<in>set (map unat bs). b < 256" by (simp add: unat_byte)
  have "\<forall>c\<in>set (b64_encode (map unat bs)). c < 65536"
    using b64_encode_range[of "map unat bs"] by fastforce
  then have "map unat (map of_nat (b64_encode (map unat bs)) :: jsstring) = b64_encode (map unat bs)"
    by (rule units_back)
  then show ?thesis
    unfolding from_base64_def toString_base64_def
    by (simp only: b64_roundtrip_nat[OF r] of_nat_unat_map)
qed

lemma utf8_roundtrip: "well_formed s \<Longrightarrow> toString_utf8 (from_utf8 s) = s"
proof -
  assume wf: "well_formed s"
  have r: "\<forall>c\<in>set (map unat s). c < 65536" by (simp add: unat_unit)
  from utf8_encode_range[OF r]
  have "map unat (map of_nat (utf8_encode (map unat s)) :: byte list) = utf8_encode (map unat s)"
    by (rule bytes_back)
  then show ?thesis
    unfolding toString_utf8_def from_utf8_def
    using utf8_roundtrip_nat[OF wf[unfolded well_formed_def] r]
    by (simp only: of_nat_unat_map)
qed

lemma decode_replacement: "utf8_decode (replacement @ bs) = 65533 # utf8_decode bs"
  by (simp add: replacement_def is_cont_def bytesPerSequence_def utf16_units_def)

lemma utf8_scrub_nat:
  "\<forall>c\<in>set cs. c < 65536 \<Longrightarrow> utf8_decode (utf8_encode cs) = toWellFormed_utf16 cs"
proof (induction cs rule: utf8_encode.induct)
  case 1 show ?case by simp
next
  case (2 c)
  then have c: "c < 65536" by simp
  show ?case
  proof (cases "is_lead c \<or> is_trail c")
    case True
    then show ?thesis using decode_replacement[of "[]"] by simp
  next
    case False
    then show ?thesis using decode_bmp[OF c, of "[]"] by simp
  qed
next
  case (3 c d cs)
  from "3.prems" have r: "c < 65536" "\<forall>c\<in>set cs. c < 65536" "\<forall>c\<in>set (d # cs). c < 65536"
    by simp_all
  show ?case
  proof (cases "is_lead c")
    case True
    show ?thesis
    proof (cases "is_trail d")
      case t: True
      from "3.IH"(1)[OF True t r(2)] have IH: "utf8_decode (utf8_encode cs) = toWellFormed_utf16 cs" .
      have "utf8_decode (utf8_cp ((c - 55296) * 1024 + (d - 56320) + 65536) @ utf8_encode cs)
              = [c, d] @ utf8_decode (utf8_encode cs)"
        using decode_cp4[OF pair_units(2,3)[OF True t]] pair_units(1)[OF True t] by simp
      then show ?thesis using True t IH by simp
    next
      case f: False
      from "3.IH"(2)[OF True f r(3)] show ?thesis using True f
        by (simp add: decode_replacement del: utf8_decode.simps)
    qed
  next
    case False
    show ?thesis
    proof (cases "is_trail c")
      case t: True
      from "3.IH"(3)[OF False t r(3)] show ?thesis using False t
        by (simp add: decode_replacement del: utf8_decode.simps)
    next
      case f: False
      from "3.IH"(4)[OF False f r(3)] show ?thesis
        using False f decode_bmp[OF r(1) False f, of "utf8_encode (d # cs)"] by simp
    qed
  qed
qed

lemma toWellFormed_fixed_nat: "toWellFormed_utf16 cs = cs \<longleftrightarrow> well_formed_utf16 cs"
  by (induction cs rule: toWellFormed_utf16.induct) (auto simp: is_lead_def is_trail_def)

lemma toWellFormed_range: "\<forall>c\<in>set cs. c < 65536 \<Longrightarrow> \<forall>c\<in>set (toWellFormed_utf16 cs). c < 65536"
  by (induction cs rule: toWellFormed_utf16.induct) auto

lemma utf8_scrub: "toString_utf8 (from_utf8 s) = toWellFormed s"
proof -
  have r: "\<forall>c\<in>set (map unat s). c < 65536" by (simp add: unat_unit)
  from utf8_encode_range[OF r]
  have "map unat (map of_nat (utf8_encode (map unat s)) :: byte list) = utf8_encode (map unat s)"
    by (rule bytes_back)
  then show ?thesis
    unfolding toString_utf8_def from_utf8_def toWellFormed_def
    using utf8_scrub_nat[OF r] by simp
qed

lemma toWellFormed_fixed: "toWellFormed s = s \<longleftrightarrow> well_formed s"
proof -
  have r: "\<forall>c\<in>set (map unat s). c < 65536" by (simp add: unat_unit)
  have b: "map unat (map of_nat (toWellFormed_utf16 (map unat s)) :: jsstring) = toWellFormed_utf16 (map unat s)"
    by (rule units_back[OF toWellFormed_range[OF r]])
  show ?thesis
  proof
    assume "toWellFormed s = s"
    then have "map unat (toWellFormed s) = map unat s" by simp
    then have "toWellFormed_utf16 (map unat s) = map unat s" unfolding toWellFormed_def b .
    then show "well_formed s" unfolding well_formed_def toWellFormed_fixed_nat .
  next
    assume "well_formed s"
    then have "toWellFormed_utf16 (map unat s) = map unat s"
      unfolding well_formed_def toWellFormed_fixed_nat .
    then show "toWellFormed s = s" unfolding toWellFormed_def by (simp only: of_nat_unat_map)
  qed
qed

section \<open>Lemmas: the key store\<close>

lemma fill0_apply: "fill0 k mem k' = (if k' = k then replicate (length (mem k)) 0 else mem k')"
  by (simp add: fill0_def)

lemma fold_fill0:
  "fold (\<lambda>(peerId, entry). fill0 (key entry)) xs mem k =
     (if k \<in> (\<lambda>(peerId, entry). key entry) ` set xs then replicate (length (mem k)) 0 else mem k)"
proof (induction xs arbitrary: mem)
  case Nil
  show ?case by simp
next
  case (Cons x xs)
  obtain p entry where x: "x = (p, entry)" by (cases x)
  show ?case unfolding x using Cons.IH[of "fill0 (key entry) mem"]
    by (auto simp: fill0_apply)
qed

lemma list_all_update:
  "list_all P al \<Longrightarrow> P (k, v) \<Longrightarrow> list_all P (AList.update k v al)"
  by (induction al) auto

lemma keys_32_update:
  assumes "keys_32 s" "length bs = 32"
  shows "keys_32 (s\<lparr>arrays := (arrays s)(k := bs), fresh := f,
                    sessionKeys := AList.update p \<lparr>key = k, createdAt = t\<rparr> (sessionKeys s)\<rparr>)"
proof -
  let ?P = "\<lambda>(peerId, entry). length (((arrays s)(k := bs)) (key entry)) = 32"
  have "list_all ?P (sessionKeys s)"
    using assms unfolding keys_32_def list_all_iff by auto
  moreover have "?P (p, \<lparr>key = k, createdAt = t\<rparr>)" using assms(2) by simp
  ultimately have "list_all ?P (AList.update p \<lparr>key = k, createdAt = t\<rparr> (sessionKeys s))"
    by (rule list_all_update)
  then show ?thesis by (simp add: keys_32_def)
qed

lemma bob_keyed_facts: "getSessionKey bob bob_keyed = Some 0" "length (arrays bob_keyed 0) = 32"
  by (simp_all add: bob_keyed_def generateSessionKey_def getSessionKey_def aes_init_def Let_def)

lemma hi_well_formed: "well_formed (js ''hi'')"
  by (simp add: well_formed_def js_def is_lead_def is_trail_def)

lemma lone_surrogate_bytes: "from_utf8 lone_surrogate = [239, 191, 189]"
  by (simp add: from_utf8_def lone_surrogate_def is_lead_def replacement_def)

lemma replacement_base64: "toString_base64 [239, 191, 189] = js ''77+9''"
  by (simp add: toString_base64_def js_def b64char_def)

lemma replacement_decoded: "toString_utf8 (from_base64 (js ''77+9'')) = [0xFFFD]"
  by (simp add: from_base64_def toString_utf8_def js_def b64_decode_def is_b64_def b64val_def
       is_cont_def bytesPerSequence_def utf16_units_def)

lemma short_key_bytes: "from_base64 short_key = [0, 0, 0]"
  by (simp add: short_key_def from_base64_def js_def b64_decode_def is_b64_def b64val_def)

lemma bob_keyed_32: "keys_32 bob_keyed"
  by (simp add: keys_32_def bob_keyed_def generateSessionKey_def aes_init_def Let_def)

section \<open>Lemmas: the manager\<close>

lemma map_of_delete_same: "map_of (AList.delete k al) k = None"
  by (simp add: AList.delete_eq map_of_eq_None_iff image_iff)

lemma handleOffer_collision:
  assumes "map_of (connections w) peerId = Some existing"
  shows "handleOffer peerId payload e w =
     (if (case currentUser w of None \<Rightarrow> False | Some u \<Rightarrow> peerId < u)
      then (Inr (), [], w)
      else (case handleOffer peerId payload e (w\<lparr>connections := AList.delete peerId (connections w)\<rparr>) of
              (r, evs, w') \<Rightarrow> (r, pc_close (pc existing) # evs, w')))"
proof -
  have g: "(case currentUser w of None \<Rightarrow> False | Some u \<Rightarrow> u \<noteq> [] \<and> u > peerId)
         = (case currentUser w of None \<Rightarrow> False | Some u \<Rightarrow> peerId < u)"
    by (auto split: option.splits)
  show ?thesis
    unfolding handleOffer_def[of peerId payload e w] assms g
    by (simp add: handleOffer_def[of peerId payload e "w\<lparr>connections := AList.delete peerId (connections w)\<rparr>"] map_of_delete_same Let_def)
qed

lemma connect_offer_ok:
  "createOffer_result e = Inr off \<Longrightarrow> setLocalDescription_error e = None \<Longrightarrow> sendSignal_error e = None \<Longrightarrow>
   fst (connect_offer peer h e w) = None"
  by (simp add: connect_offer_def sendSignal_def Let_def split_def)

lemma connect_fresh:
  assumes "connections w = []" "createOffer_result e = Inr off" "setLocalDescription_error e = None" "sendSignal_error e = None"
  shows "connections (snd (connect peer e w)) =
           [(username peer, \<lparr>pc = nextHandle w, dataChannel = Some \<lparr>channel = Suc (nextHandle w), readyState = rs_connecting\<rparr>,
              state = connecting, pendingCandidates = [], hasRemoteDescription = False\<rparr>)]"
    and "currentUser (snd (connect peer e w)) = currentUser w"
proof -
  have u: "updateState (username peer) connecting w = (if callbacks w then [onStateChange (username peer) connecting] else [], w)"
    using assms(1) by (simp add: updateState_def)
  define w3 where "w3 = w\<lparr>connections := AList.update (username peer)
                      \<lparr>pc = nextHandle w, dataChannel = Some \<lparr>channel = Suc (nextHandle w), readyState = rs_connecting\<rparr>,
                       state = connecting, pendingCandidates = [], hasRemoteDescription = False\<rparr>
                      (connections w), nextHandle := Suc (Suc (nextHandle w))\<rparr>
                 \<lparr>aes := snd (generateSessionKey (username peer) (rnd e) (now e)
                    (aes (w\<lparr>connections := AList.update (username peer)
                      \<lparr>pc = nextHandle w, dataChannel = Some \<lparr>channel = Suc (nextHandle w), readyState = rs_connecting\<rparr>,
                       state = connecting, pendingCandidates = [], hasRemoteDescription = False\<rparr>
                      (connections w), nextHandle := Suc (Suc (nextHandle w))\<rparr>)))\<rparr>"
  obtain ev4 where c: "connect_offer peer (nextHandle w) e w3 = (None, ev4)"
    using connect_offer_ok[OF assms(2,3,4), of peer "nextHandle w" w3]
    by (cases "connect_offer peer (nextHandle w) e w3") simp
  have "snd (connect peer e w) = w3"
    by (simp only: connect_def Let_def u prod.case w3_def[symmetric] c option.case snd_conv)
  then show "connections (snd (connect peer e w)) =
           [(username peer, \<lparr>pc = nextHandle w, dataChannel = Some \<lparr>channel = Suc (nextHandle w), readyState = rs_connecting\<rparr>,
              state = connecting, pendingCandidates = [], hasRemoteDescription = False\<rparr>)]"
    and "currentUser (snd (connect peer e w)) = currentUser w"
    using assms(1) by (simp_all add: w3_def)
qed

lemma init_fresh:
  "connections (snd (init user e manager_init)) = []" "currentUser (snd (init user e manager_init)) = Some user"
  "nextHandle (snd (init user e manager_init)) = 0" "pollingInterval (snd (init user e manager_init)) = Some (timer e)"
  by (simp_all add: init_def startPolling_def manager_init_def)

lemma alice_manager_connections: "connections alice_manager = [(bob, session0)]" "currentUser alice_manager = Some alice"
  unfolding alice_manager_def
  by (simp_all add: connect_fresh[where off = "\<lparr>sdp = js ''v=0'', type = js ''offer''\<rparr>"] init_fresh env0_def bob_user_def session0_def)

lemma bob_manager_connections: "connections bob_manager = [(alice, session0)]" "currentUser bob_manager = Some bob"
  unfolding bob_manager_def
  by (simp_all add: connect_fresh[where off = "\<lparr>sdp = js ''v=0'', type = js ''offer''\<rparr>"] init_fresh env0_def alice_user_def session0_def)

lemma alice_lt_bob: "alice < bob" "alice \<noteq> bob" "bob \<noteq> alice" "\<not> bob < alice"
  by (simp_all add: alice_def bob_def js_def)

lemma alice_answered_connections:
  "connections alice_answered = [(bob, session0\<lparr>hasRemoteDescription := True\<rparr>)]"
  by (simp add: alice_answered_def handleAnswer_def processPendingCandidates_def
        alice_manager_connections env0_def session0_def Let_def)

lemma alice_idle_facts: "connections alice_idle = []" "pollingInterval alice_idle = Some 1"
  by (simp_all add: alice_idle_def init_fresh env0_def)

lemma alice_open_facts:
  "map_of (connections alice_open) bob = Some (session0\<lparr>dataChannel := Some \<lparr>channel = 1, readyState = rs_open\<rparr>,
                      state := connected, hasRemoteDescription := True\<rparr>)"
  by (simp add: alice_open_def)

lemma exportKey_generated:
  "exportKey p (snd (generateSessionKey p r t s)) = Some (toString_base64 (map r [0..<32]))"
  by (simp add: exportKey_def generateSessionKey_def getSessionKey_def Let_def update_conv')

lemma connect_offer_sent:
  assumes "createOffer_result e = Inr off" "setLocalDescription_error e = None"
    "exportKey (username peer) (aes w) = Some k"
  shows "connect_offer peer h e w =
     ((case sendSignal_error e of Some err \<Rightarrow> Some err | None \<Rightarrow> None),
      [createOffer h, setLocalDescription h off None]
      @ snd (sendSignal peer offer
               (JSON_stringify [(js ''sdp'', sdp off), (js ''type'', type off), (js ''aesKey'', k)]) e))"
  using assms by (simp add: connect_offer_def sendSignal_def Let_def split_def split: option.splits)

lemma connect_fresh_full:
  assumes "connections w = []" "createOffer_result e = Inr off" "setLocalDescription_error e = None"
    "sendSignal_error e = None"
  shows "connect peer e w =
     ((if callbacks w then [onStateChange (username peer) connecting] else [])
      @ [new_RTCPeerConnection (nextHandle w), createDataChannel (nextHandle w) (Suc (nextHandle w)),
         createOffer (nextHandle w), setLocalDescription (nextHandle w) off None]
      @ snd (sendSignal peer offer
               (JSON_stringify [(js ''sdp'', sdp off), (js ''type'', type off),
                                (js ''aesKey'', toString_base64 (map (rnd e) [0..<32]))]) e),
      w\<lparr>connections :=
           [(username peer,
             \<lparr>pc = nextHandle w,
              dataChannel = Some \<lparr>channel = Suc (nextHandle w), readyState = rs_connecting\<rparr>,
              state = connecting, pendingCandidates = [], hasRemoteDescription = False\<rparr>)],
         nextHandle := Suc (Suc (nextHandle w)),
         aes := snd (generateSessionKey (username peer) (rnd e) (now e) (aes w))\<rparr>)"
proof -
  have u: "updateState (username peer) connecting w = (if callbacks w then [onStateChange (username peer) connecting] else [], w)"
    using assms(1) by (simp add: updateState_def)
  define w3 where "w3 = w\<lparr>connections := AList.update (username peer)
                      \<lparr>pc = nextHandle w, dataChannel = Some \<lparr>channel = Suc (nextHandle w), readyState = rs_connecting\<rparr>,
                       state = connecting, pendingCandidates = [], hasRemoteDescription = False\<rparr>
                      (connections w), nextHandle := Suc (Suc (nextHandle w))\<rparr>
                 \<lparr>aes := snd (generateSessionKey (username peer) (rnd e) (now e)
                    (aes (w\<lparr>connections := AList.update (username peer)
                      \<lparr>pc = nextHandle w, dataChannel = Some \<lparr>channel = Suc (nextHandle w), readyState = rs_connecting\<rparr>,
                       state = connecting, pendingCandidates = [], hasRemoteDescription = False\<rparr>
                      (connections w), nextHandle := Suc (Suc (nextHandle w))\<rparr>)))\<rparr>"
  have k: "exportKey (username peer) (aes w3) = Some (toString_base64 (map (rnd e) [0..<32]))"
    unfolding w3_def by (simp add: exportKey_generated)
  have c: "connect_offer peer (nextHandle w) e w3 =
     (None, [createOffer (nextHandle w), setLocalDescription (nextHandle w) off None]
      @ snd (sendSignal peer offer
               (JSON_stringify [(js ''sdp'', sdp off), (js ''type'', type off),
                  (js ''aesKey'', toString_base64 (map (rnd e) [0..<32]))]) e))"
    using connect_offer_sent[OF assms(2,3) k, of "nextHandle w"] assms(4) by simp
  have "connect peer e w =
     ((if callbacks w then [onStateChange (username peer) connecting] else [])
      @ [new_RTCPeerConnection (nextHandle w), createDataChannel (nextHandle w) (Suc (nextHandle w))]
      @ [createOffer (nextHandle w), setLocalDescription (nextHandle w) off None]
      @ snd (sendSignal peer offer
               (JSON_stringify [(js ''sdp'', sdp off), (js ''type'', type off),
                  (js ''aesKey'', toString_base64 (map (rnd e) [0..<32]))]) e), w3)"
    by (simp only: connect_def Let_def u prod.case w3_def[symmetric] c option.case)
  then show ?thesis using assms(1) by (simp add: w3_def)
qed

lemma handleOffer_answer_full:
  assumes "map_of (connections w) p = Some conn" "pendingCandidates conn = []"
    "createAnswer_result e = Inr ans" "setLocalDescription_error e = None" "getUser_result e = Some peer"
  shows "handleOffer_answer p h e w =
     (fst (sendSignal peer answer (JSON_stringify [(js ''sdp'', sdp ans), (js ''type'', type ans)]) e),
      [createAnswer h, setLocalDescription h ans None]
      @ snd (sendSignal peer answer (JSON_stringify [(js ''sdp'', sdp ans), (js ''type'', type ans)]) e),
      w\<lparr>connections := AList.update p (conn\<lparr>hasRemoteDescription := True\<rparr>) (connections w)\<rparr>)"
proof -
  have pp: "processPendingCandidates p (w\<lparr>connections := AList.update p (conn\<lparr>hasRemoteDescription := True\<rparr>) (connections w)\<rparr>)
        = ([], w\<lparr>connections := AList.update p (conn\<lparr>hasRemoteDescription := True\<rparr>) (connections w)\<rparr>)"
  proof -
    have eq: "conn\<lparr>hasRemoteDescription := True, pendingCandidates := []\<rparr> = conn\<lparr>hasRemoteDescription := True\<rparr>"
      using assms(2) by (cases conn) simp
    show ?thesis using assms(2) by (simp add: processPendingCandidates_def update_conv' eq)
  qed
  show ?thesis
    unfolding handleOffer_answer_def assms(1) option.case pp
    using assms(3,4,5) by (simp add: Let_def split_def)
qed

lemma handleOffer_fresh_full:
  assumes "map_of (connections w) p = None" "setRemoteDescription_error e = None"
    "createAnswer_result e = Inr ans" "setLocalDescription_error e = None" "getUser_result e = Some peer"
  shows "handleOffer p payload e w =
     (fst (sendSignal peer answer (JSON_stringify [(js ''sdp'', sdp ans), (js ''type'', type ans)]) e),
      (if callbacks w then [onStateChange p connecting] else [])
      @ [new_RTCPeerConnection (nextHandle w),
         setRemoteDescription (nextHandle w) \<lparr>sdp = sdp payload, type = type payload\<rparr> None,
         createAnswer (nextHandle w), setLocalDescription (nextHandle w) ans None]
      @ snd (sendSignal peer answer (JSON_stringify [(js ''sdp'', sdp ans), (js ''type'', type ans)]) e),
      w\<lparr>aes := (case aesKey payload of
                  Some k \<Rightarrow> if k \<noteq> [] then setSessionKey p k (now e) (aes w) else aes w
                | None \<Rightarrow> aes w),
         connections := AList.update p
            \<lparr>pc = nextHandle w, dataChannel = None, state = connecting,
             pendingCandidates = [], hasRemoteDescription = True\<rparr> (connections w),
         nextHandle := Suc (nextHandle w)\<rparr>)"
proof -
  let ?c0 = "\<lparr>pc = nextHandle w, dataChannel = None, state = connecting,
             pendingCandidates = [], hasRemoteDescription = False\<rparr>"
  let ?ss = "sendSignal peer answer (JSON_stringify [(js ''sdp'', sdp ans), (js ''type'', type ans)]) e"
  have u: "updateState p connecting w = (if callbacks w then [onStateChange p connecting] else [], w)"
    using assms(1) by (simp add: updateState_def)
  define w2 where "w2 = (case aesKey payload of
                  Some k \<Rightarrow> if k \<noteq> [] then w\<lparr>aes := setSessionKey p k (now e) (aes w)\<rparr> else w
                | None \<Rightarrow> w)"
  have w2: "w2 = w\<lparr>aes := (case aesKey payload of
                  Some k \<Rightarrow> if k \<noteq> [] then setSessionKey p k (now e) (aes w) else aes w
                | None \<Rightarrow> aes w)\<rparr>"
    by (simp add: w2_def split: option.splits)
  have f2: "connections w2 = connections w" "nextHandle w2 = nextHandle w" by (simp_all add: w2)
  define w3 where "w3 = w2\<lparr>connections := AList.update p ?c0 (connections w), nextHandle := Suc (nextHandle w)\<rparr>"
  have s: "handleOffer_session p payload e w =
     ((if callbacks w then [onStateChange p connecting] else []) @ [new_RTCPeerConnection (nextHandle w)],
      nextHandle w, w3)"
    by (simp only: handleOffer_session_def Let_def u prod.case w2_def[symmetric] f2 w3_def[symmetric])
  have m3: "map_of (connections w3) p = Some ?c0" by (simp add: w3_def update_conv')
  have a: "handleOffer_answer p (nextHandle w) e w3 =
     (fst ?ss, [createAnswer (nextHandle w), setLocalDescription (nextHandle w) ans None] @ snd ?ss,
      w3\<lparr>connections := AList.update p (?c0\<lparr>hasRemoteDescription := True\<rparr>) (connections w3)\<rparr>)"
    by (rule handleOffer_answer_full[OF m3 _ assms(3,4,5)]) simp
  have "handleOffer_respond p payload e w =
     (fst ?ss,
      ((if callbacks w then [onStateChange p connecting] else []) @ [new_RTCPeerConnection (nextHandle w)])
      @ [setRemoteDescription (nextHandle w) \<lparr>sdp = sdp payload, type = type payload\<rparr> None]
      @ [createAnswer (nextHandle w), setLocalDescription (nextHandle w) ans None] @ snd ?ss,
      w3\<lparr>connections := AList.update p (?c0\<lparr>hasRemoteDescription := True\<rparr>) (connections w3)\<rparr>)"
    by (simp only: handleOffer_respond_def Let_def s prod.case assms(2) option.case a)
  moreover have "handleOffer p payload e w = handleOffer_respond p payload e w"
    using assms(1) by (simp add: handleOffer_def)
  moreover have "w3\<lparr>connections := AList.update p (?c0\<lparr>hasRemoteDescription := True\<rparr>) (connections w3)\<rparr>
      = w\<lparr>aes := (case aesKey payload of
                  Some k \<Rightarrow> if k \<noteq> [] then setSessionKey p k (now e) (aes w) else aes w
                | None \<Rightarrow> aes w),
         connections := AList.update p
            \<lparr>pc = nextHandle w, dataChannel = None, state = connecting,
             pendingCandidates = [], hasRemoteDescription = True\<rparr> (connections w),
         nextHandle := Suc (nextHandle w)\<rparr>"
    by (simp add: w3_def w2)
  ultimately show ?thesis by simp
qed

lemma sendSignal_mock:
  "sendSignal bob_user ty payload env0 =
     (Inr (), [api_sendSignal \<lparr>to_user = bob, signal_type = ty, encrypted_payload = payload\<rparr> None])"
  by (simp add: sendSignal_def bob_user_def env0_def js_def Let_def)

section \<open>Lemmas: the async methods\<close>

lemmas async_defs = run_def runtime_init_def suspend_def connect'_def init'_def startPolling'_def
  updateState'_def emit_def new_session_def Let_def env0_def bob_user_def sendSignal'_def
  post_signal_def js_def handleIceCandidate'_def handleAnswer'_def handleSignal'_def
  processPendingCandidates'_def flush_from_def answer_payload_def handleOffer'_def
  handleOffer_respond'_def handleOffer_answer'_def offer_payload_def

section \<open>The claims\<close>

text \<open>
  C1.  Collision resolution.  When an offer arrives from a peer for whom a session
  exists: if the local identifier is greater than the peer's in the order of strings, the
  offer is ignored, with no call and the manager unchanged; otherwise the transport of
  the existing session is closed, its entry is removed, and the offer is handled as by
  a manager that has no session for the peer.  For two distinct identifiers whose
  managers each hold a session for the other, exactly one of the two ignores the
  other's offer, the one with the greater identifier, whatever the payloads, the
  environments and the rest of the two states are.
\<close>

theorem collision_resolution:
  "(map_of (connections w) peerId = Some existing \<and> currentUser w = Some u \<and> peerId < u \<longrightarrow>
      handleOffer peerId payload e w = (Inr (), [], w)) \<and>
   (map_of (connections w) peerId = Some existing \<and> \<not> (\<exists>u. currentUser w = Some u \<and> peerId < u) \<longrightarrow>
      map_of (connections (w\<lparr>connections := AList.delete peerId (connections w)\<rparr>)) peerId = None \<and>
      handleOffer peerId payload e w =
        (case handleOffer peerId payload e (w\<lparr>connections := AList.delete peerId (connections w)\<rparr>) of
           (r, evs, w') \<Rightarrow> (r, pc_close (pc existing) # evs, w'))) \<and>
   (a \<noteq> b \<and> currentUser wa = Some a \<and> map_of (connections wa) b = Some ca \<and>
    currentUser wb = Some b \<and> map_of (connections wb) a = Some cb \<longrightarrow>
      (handleOffer b pb ea wa = (Inr (), [], wa) \<longleftrightarrow> b < a) \<and>
      (handleOffer a pa eb wb = (Inr (), [], wb) \<longleftrightarrow> a < b) \<and>
      (handleOffer b pb ea wa = (Inr (), [], wa) \<longleftrightarrow> handleOffer a pa eb wb \<noteq> (Inr (), [], wb)))"
proof (intro conjI impI)
  assume h: "map_of (connections w) peerId = Some existing \<and> currentUser w = Some u \<and> peerId < u"
  then show "handleOffer peerId payload e w = (Inr (), [], w)"
    using handleOffer_collision[of w peerId existing payload e] by simp
next
  assume "map_of (connections w) peerId = Some existing \<and> \<not> (\<exists>u. currentUser w = Some u \<and> peerId < u)"
  then show "map_of (connections (w\<lparr>connections := AList.delete peerId (connections w)\<rparr>)) peerId = None"
    by (simp add: map_of_delete_same)
next
  assume h: "map_of (connections w) peerId = Some existing \<and> \<not> (\<exists>u. currentUser w = Some u \<and> peerId < u)"
  then have "\<not> (case currentUser w of None \<Rightarrow> False | Some u \<Rightarrow> peerId < u)"
    by (auto split: option.splits)
  then show "handleOffer peerId payload e w =
        (case handleOffer peerId payload e (w\<lparr>connections := AList.delete peerId (connections w)\<rparr>) of
           (r, evs, w') \<Rightarrow> (r, pc_close (pc existing) # evs, w'))"
    using h handleOffer_collision[of w peerId existing payload e] by simp
next
  assume h: "a \<noteq> b \<and> currentUser wa = Some a \<and> map_of (connections wa) b = Some ca \<and>
    currentUser wb = Some b \<and> map_of (connections wb) a = Some cb"
  have A: "handleOffer b pb ea wa = (Inr (), [], wa) \<longleftrightarrow> b < a"
    using h handleOffer_collision[of wa b ca pb ea] by (auto split: prod.splits)
  have B: "handleOffer a pa eb wb = (Inr (), [], wb) \<longleftrightarrow> a < b"
    using h handleOffer_collision[of wb a cb pa eb] by (auto split: prod.splits)
  from h have "a < b \<or> b < a" by auto
  then have C: "(b < a) \<longleftrightarrow> \<not> (a < b)" by auto
  show "handleOffer b pb ea wa = (Inr (), [], wa) \<longleftrightarrow> b < a" by (rule A)
  show "handleOffer a pa eb wb = (Inr (), [], wb) \<longleftrightarrow> a < b" by (rule B)
  show "handleOffer b pb ea wa = (Inr (), [], wa) \<longleftrightarrow> handleOffer a pa eb wb \<noteq> (Inr (), [], wb)"
    using A B C by simp
qed

theorem collision_resolution_witness:
  "map_of (connections bob_manager) alice = Some session0 \<and> currentUser bob_manager = Some bob \<and> alice < bob \<and>
   handleOffer alice offer_payload env0 bob_manager = (Inr (), [], bob_manager) \<and>
   map_of (connections alice_manager) bob = Some session0 \<and> currentUser alice_manager = Some alice \<and>
   \<not> bob < alice \<and>
   handleOffer bob offer_payload env0 alice_manager \<noteq> (Inr (), [], alice_manager) \<and>
   map_of (connections (alice_manager\<lparr>connections := AList.delete bob (connections alice_manager)\<rparr>)) bob = None \<and>
   handleOffer bob offer_payload env0 alice_manager =
     (case handleOffer bob offer_payload env0
             (alice_manager\<lparr>connections := AList.delete bob (connections alice_manager)\<rparr>) of
        (r, evs, w') \<Rightarrow> (r, pc_close 0 # evs, w'))"
  using collision_resolution[where w = bob_manager and peerId = alice and existing = session0 and u = bob
      and payload = offer_payload and e = env0 and a = bob and b = alice and wa = bob_manager and ca = session0
      and wb = alice_manager and cb = session0 and pb = offer_payload and ea = env0 and pa = offer_payload and eb = env0]
    collision_resolution[where w = alice_manager and peerId = bob and existing = session0
      and payload = offer_payload and e = env0]
  by (simp add: alice_manager_connections bob_manager_connections alice_lt_bob session0_def)

text \<open>
  C2.  Candidate queueing.  The methods that queue and apply candidates are async, and
  neither the poll timer nor \<open>connect\<close> waits for a suspended handler.  The calls made
  on transports in four runs of the manager of \<open>@alice\<close>:
  \<^item> \<open>ordered_schedule\<close>, where every handler returns before the next thing happens:
    after its first eight actions the first two candidates are in the queue, in their
    order, and none is applied; at its end they have been applied after the remote
    description, in their order, and the third after them, the flag is set and the
    queue is empty;
  \<^item> \<open>racing_schedule\<close>, where the third candidate is handled while the loop over the
    queue waits: it is applied before the second, against the order of arrival;
  \<^item> \<open>glare_schedule\<close>, where \<open>connect\<close> replaces the session while the handler of the
    offer waits: the handler sets the flag of the session it finds in the map, which is
    that of \<open>connect\<close>, and the candidate is applied to transport 1, to which no remote
    description was applied;
  \<^item> \<open>glare_queued_schedule\<close>, where the candidate arrives before the handler of the
    offer goes on: it is queued in the session of \<open>connect\<close> and the handler of the
    offer applies it to transport 1.
\<close>

theorem candidate_schedules:
  "transport_calls (calls (run (take 8 ordered_schedule) runtime_init)) = [new_RTCPeerConnection 0] \<and>
   (case map_of (connections' (run (take 8 ordered_schedule) runtime_init)) bob of
      Some conn \<Rightarrow>
        \<not> hasRemoteDescription' (objects (run (take 8 ordered_schedule) runtime_init) conn) \<and>
        queues (run (take 8 ordered_schedule) runtime_init)
          (pendingCandidates' (objects (run (take 8 ordered_schedule) runtime_init) conn))
        = [candidate1, candidate2]
    | None \<Rightarrow> False) \<and>
   transport_calls (calls (run ordered_schedule runtime_init)) =
     [new_RTCPeerConnection 0,
      setRemoteDescription 0 \<lparr>sdp = js ''v=0'', type = js ''answer''\<rparr> None,
      addIceCandidate 0 candidate1, addIceCandidate 0 candidate2, addIceCandidate 0 candidate3] \<and>
   (case map_of (connections' (run ordered_schedule runtime_init)) bob of
      Some conn \<Rightarrow>
        hasRemoteDescription' (objects (run ordered_schedule runtime_init) conn) \<and>
        queues (run ordered_schedule runtime_init)
          (pendingCandidates' (objects (run ordered_schedule runtime_init) conn)) = []
    | None \<Rightarrow> False) \<and>
   transport_calls (calls (run racing_schedule runtime_init)) =
     [new_RTCPeerConnection 0,
      setRemoteDescription 0 \<lparr>sdp = js ''v=0'', type = js ''answer''\<rparr> None,
      addIceCandidate 0 candidate1, addIceCandidate 0 candidate3, addIceCandidate 0 candidate2] \<and>
   transport_calls (calls (run glare_schedule runtime_init)) =
     [new_RTCPeerConnection 0,
      setRemoteDescription 0 \<lparr>sdp = js ''v=0'', type = js ''offer''\<rparr> None,
      new_RTCPeerConnection 1, addIceCandidate 1 candidate1] \<and>
   \<not> applied_after_description [] (calls (run glare_schedule runtime_init)) \<and>
   (case map_of (connections' (run glare_schedule runtime_init)) bob of
      Some conn \<Rightarrow>
        pc' (objects (run glare_schedule runtime_init) conn) = 1 \<and>
        hasRemoteDescription' (objects (run glare_schedule runtime_init) conn)
    | None \<Rightarrow> False) \<and>
   transport_calls (calls (run glare_queued_schedule runtime_init)) =
     [new_RTCPeerConnection 0,
      setRemoteDescription 0 \<lparr>sdp = js ''v=0'', type = js ''offer''\<rparr> None,
      new_RTCPeerConnection 1, addIceCandidate 1 candidate1]"
proof (intro conjI)
  show "transport_calls (calls (run (take 8 ordered_schedule) runtime_init)) = [new_RTCPeerConnection 0]"
    by (simp add: ordered_schedule_def async_defs)
  show "case map_of (connections' (run (take 8 ordered_schedule) runtime_init)) bob of
      Some conn \<Rightarrow>
        \<not> hasRemoteDescription' (objects (run (take 8 ordered_schedule) runtime_init) conn) \<and>
        queues (run (take 8 ordered_schedule) runtime_init)
          (pendingCandidates' (objects (run (take 8 ordered_schedule) runtime_init) conn))
        = [candidate1, candidate2]
    | None \<Rightarrow> False"
    by (simp add: ordered_schedule_def async_defs)
  show "case map_of (connections' (run ordered_schedule runtime_init)) bob of
      Some conn \<Rightarrow>
        hasRemoteDescription' (objects (run ordered_schedule runtime_init) conn) \<and>
        queues (run ordered_schedule runtime_init)
          (pendingCandidates' (objects (run ordered_schedule runtime_init) conn)) = []
    | None \<Rightarrow> False"
    by (simp add: ordered_schedule_def async_defs)
  show "transport_calls (calls (run ordered_schedule runtime_init)) =
     [new_RTCPeerConnection 0,
      setRemoteDescription 0 \<lparr>sdp = js ''v=0'', type = js ''answer''\<rparr> None,
      addIceCandidate 0 candidate1, addIceCandidate 0 candidate2, addIceCandidate 0 candidate3]"
    by (simp add: ordered_schedule_def async_defs)
  show "transport_calls (calls (run racing_schedule runtime_init)) =
     [new_RTCPeerConnection 0,
      setRemoteDescription 0 \<lparr>sdp = js ''v=0'', type = js ''answer''\<rparr> None,
      addIceCandidate 0 candidate1, addIceCandidate 0 candidate3, addIceCandidate 0 candidate2]"
    by (simp add: racing_schedule_def async_defs)
  show "transport_calls (calls (run glare_schedule runtime_init)) =
     [new_RTCPeerConnection 0,
      setRemoteDescription 0 \<lparr>sdp = js ''v=0'', type = js ''offer''\<rparr> None,
      new_RTCPeerConnection 1, addIceCandidate 1 candidate1]"
    by (simp add: glare_schedule_def async_defs)
  show "\<not> applied_after_description [] (calls (run glare_schedule runtime_init))"
    by (simp add: glare_schedule_def async_defs)
  show "case map_of (connections' (run glare_schedule runtime_init)) bob of
      Some conn \<Rightarrow>
        pc' (objects (run glare_schedule runtime_init) conn) = 1 \<and>
        hasRemoteDescription' (objects (run glare_schedule runtime_init) conn)
    | None \<Rightarrow> False"
    by (simp add: glare_schedule_def async_defs)
  show "transport_calls (calls (run glare_queued_schedule runtime_init)) =
     [new_RTCPeerConnection 0,
      setRemoteDescription 0 \<lparr>sdp = js ''v=0'', type = js ''offer''\<rparr> None,
      new_RTCPeerConnection 1, addIceCandidate 1 candidate1]"
    by (simp add: glare_queued_schedule_def async_defs)
qed

text \<open>
  C3.  A duplicate answer is a no-op.  For a session whose flag is set, \<open>handleAnswer\<close>
  returns normally, makes no call and leaves the manager as it was; in particular a
  second answer after a first one that was applied changes nothing.
\<close>

theorem answer_idempotent:
  "(map_of (connections w) peerId = Some conn \<and> hasRemoteDescription conn \<longrightarrow>
      handleAnswer peerId payload e w = (Inr (), [], w)) \<and>
   (map_of (connections w) peerId = Some conn \<and> \<not> hasRemoteDescription conn \<and>
    setRemoteDescription_error e = None \<longrightarrow>
      (case handleAnswer peerId payload e w of
         (r, evs, w1) \<Rightarrow> handleAnswer peerId payload' e' w1 = (Inr (), [], w1)))"
  by (simp add: handleAnswer_def processPendingCandidates_def update_conv' Let_def)

theorem answer_idempotent_witness:
  "map_of (connections alice_answered) bob = Some (session0\<lparr>hasRemoteDescription := True\<rparr>) \<and>
   hasRemoteDescription (session0\<lparr>hasRemoteDescription := True\<rparr>) \<and>
   handleAnswer bob answer_payload env0 alice_answered = (Inr (), [], alice_answered) \<and>
   map_of (connections alice_manager) bob = Some session0 \<and> \<not> hasRemoteDescription session0 \<and>
   setRemoteDescription_error env0 = None \<and>
   handleAnswer bob answer_payload env0 (snd (snd (handleAnswer bob answer_payload env0 alice_manager)))
     = (Inr (), [], snd (snd (handleAnswer bob answer_payload env0 alice_manager)))"
  using answer_idempotent[where w = alice_answered and peerId = bob
      and conn = "session0\<lparr>hasRemoteDescription := True\<rparr>" and payload = answer_payload and e = env0]
    answer_idempotent[where w = alice_manager and peerId = bob and conn = session0
      and payload = answer_payload and e = env0 and payload' = answer_payload and e' = env0]
  by (simp add: alice_manager_connections alice_answered_connections session0_def env0_def split_def)

text \<open>
  C4, as amended.  For a peer with no session, \<open>disconnect\<close> returns normally and leaves
  the sessions and the key store as they were, but it stops the poll loop: a running
  timer is cleared and \<open>pollingInterval\<close> is null afterwards.  \<open>disconnect_stops_polling\<close>
  is the case where the claim as stated fails: after \<open>init\<close> the loop runs, and after
  \<open>disconnect\<close> of a peer without session it does not.
\<close>

theorem disconnect_no_session:
  "map_of (connections w) peerId = None \<longrightarrow>
     disconnect peerId w =
       ((case pollingInterval w of Some t \<Rightarrow> [clearInterval t] | None \<Rightarrow> []),
        w\<lparr>pollingInterval := None\<rparr>)"
  by (simp add: disconnect_def stopPolling_def split: option.splits)

theorem disconnect_no_session_witness:
  "map_of (connections alice_idle) bob = None \<and>
   disconnect bob alice_idle = ([clearInterval 1], alice_idle\<lparr>pollingInterval := None\<rparr>)"
  using disconnect_no_session[where w = alice_idle and peerId = bob] by (simp add: alice_idle_facts)

theorem disconnect_stops_polling:
  "map_of (connections alice_idle) bob = None \<and> pollingInterval alice_idle = Some 1 \<and>
   pollingInterval (snd (disconnect bob alice_idle)) = None \<and>
   snd (disconnect bob alice_idle) \<noteq> alice_idle"
proof -
  have a: "map_of (connections alice_idle) bob = None" by (simp add: alice_idle_facts)
  have b: "pollingInterval (snd (disconnect bob alice_idle)) = None"
    using a by (simp add: disconnect_def stopPolling_def alice_idle_facts)
  have "pollingInterval (snd (disconnect bob alice_idle)) \<noteq> pollingInterval alice_idle"
    unfolding b by (simp add: alice_idle_facts)
  then have "snd (disconnect bob alice_idle) \<noteq> alice_idle" by auto
  with a b show ?thesis by (simp add: alice_idle_facts)
qed

text \<open>
  C5.  Key destruction.  If the store holds a key for the peer, in the buffer \<open>k\<close>, then
  after \<open>destroySessionKey\<close> the peer has no key and every byte of \<open>k\<close> is zero, the
  buffer keeping its length; after \<open>destroyAllKeys\<close> the buffer of every stored key is
  zero and the store is empty.
\<close>

theorem destroy_zeroises:
  "(getSessionKey peerId s = Some k \<longrightarrow>
      getSessionKey peerId (destroySessionKey peerId s) = None \<and>
      arrays (destroySessionKey peerId s) k = replicate (length (arrays s k)) 0) \<and>
   (getSessionKey peerId s = Some k \<longrightarrow>
      arrays (destroyAllKeys s) k = replicate (length (arrays s k)) 0) \<and>
   sessionKeys (destroyAllKeys s) = [] \<and>
   getSessionKey peerId (destroyAllKeys s) = None"
proof (intro conjI impI)
  assume a: "getSessionKey peerId s = Some k"
  then obtain entry where e: "map_of (sessionKeys s) peerId = Some entry" "key entry = k"
    by (auto simp: getSessionKey_def split: option.splits)
  show "getSessionKey peerId (destroySessionKey peerId s) = None"
    using e by (simp add: getSessionKey_def destroySessionKey_def delete_conv')
  show "arrays (destroySessionKey peerId s) k = replicate (length (arrays s k)) 0"
    using e by (simp add: destroySessionKey_def fill0_apply)
  from e have "(peerId, entry) \<in> set (sessionKeys s)" by (auto dest: map_of_SomeD)
  then have "k \<in> (\<lambda>(peerId, entry). key entry) ` set (sessionKeys s)" using e(2) by force
  then show "arrays (destroyAllKeys s) k = replicate (length (arrays s k)) 0"
    by (simp add: destroyAllKeys_def fold_fill0)
next
  show "sessionKeys (destroyAllKeys s) = []" by (simp add: destroyAllKeys_def)
  show "getSessionKey peerId (destroyAllKeys s) = None"
    by (simp add: destroyAllKeys_def getSessionKey_def)
qed

theorem destroy_zeroises_witness:
  "getSessionKey bob bob_keyed = Some 0 \<and>
   getSessionKey bob (destroySessionKey bob bob_keyed) = None \<and>
   arrays (destroySessionKey bob bob_keyed) 0 = replicate 32 0 \<and>
   arrays (destroyAllKeys bob_keyed) 0 = replicate 32 0 \<and>
   sessionKeys (destroyAllKeys bob_keyed) = []"
  using destroy_zeroises[where peerId = bob and s = bob_keyed and k = 0] by (simp add: bob_keyed_facts)

text \<open>
  C6, as amended.  For a peer with an installed key and any plaintext, \<open>encrypt\<close>
  succeeds and \<open>decrypt\<close> of its result is the plaintext with every unpaired surrogate
  replaced by U+FFFD; it is the plaintext itself exactly when the plaintext has no
  unpaired surrogate.  \<open>roundtrip_lone_surrogate\<close> is a plaintext for which the claim as
  stated fails: the string of the single code unit D800 comes back as the replacement
  character FFFD.
\<close>

theorem encrypt_decrypt_roundtrip:
  "getSessionKey peerId s \<noteq> None \<longrightarrow>
     (case encrypt peerId plaintext r s of
        Inr data \<Rightarrow>
          decrypt peerId data s = Inr (toWellFormed plaintext) \<and>
          (decrypt peerId data s = Inr plaintext \<longleftrightarrow> well_formed plaintext)
      | Inl err \<Rightarrow> False)"
  by (auto simp: encrypt_def decrypt_def Let_def base64_roundtrip utf8_scrub toWellFormed_fixed)

theorem encrypt_decrypt_roundtrip_witness:
  "getSessionKey bob bob_keyed = Some 0 \<and> well_formed (js ''hi'') \<and>
   toWellFormed (js ''hi'') = js ''hi'' \<and>
   (case encrypt bob (js ''hi'') rnd0 bob_keyed of
      Inr data \<Rightarrow> decrypt bob data bob_keyed = Inr (js ''hi'')
    | Inl err \<Rightarrow> False)"
  using encrypt_decrypt_roundtrip[where peerId = bob and s = bob_keyed and plaintext = "js ''hi''" and r = rnd0]
  by (simp add: bob_keyed_facts hi_well_formed toWellFormed_fixed split: sum.splits)

theorem roundtrip_lone_surrogate:
  "getSessionKey bob bob_keyed = Some 0 \<and>
   ciphertext (projr (encrypt bob lone_surrogate rnd0 bob_keyed)) = js ''77+9'' \<and>
   decrypt bob (projr (encrypt bob lone_surrogate rnd0 bob_keyed)) bob_keyed = Inr [0xFFFD] \<and>
   decrypt bob (projr (encrypt bob lone_surrogate rnd0 bob_keyed)) bob_keyed \<noteq> Inr lone_surrogate"
  by (simp add: encrypt_def decrypt_def bob_keyed_facts lone_surrogate_bytes replacement_base64
        replacement_decoded Let_def) (simp add: lone_surrogate_def)

text \<open>
  C7, as amended.  \<open>generateSessionKey\<close> stores a new buffer of 32 bytes for the peer, in
  the place of any earlier key, returns that buffer, and keeps every stored key at 32
  bytes.  \<open>setSessionKey\<close> stores the bytes its base64 text decodes to, whatever their
  number: it keeps every stored key at 32 bytes exactly when the text decodes to 32
  bytes.  \<open>setSessionKey_short_key\<close> is the text \<open>AAAA\<close>, which installs a key of 3 bytes.
\<close>

theorem key_length:
  "(case generateSessionKey peerId r t s of
      (k, s') \<Rightarrow> getSessionKey peerId s' = Some k \<and> arrays s' k = map r [0..<32] \<and>
                 length (arrays s' k) = 32 \<and> (keys_32 s \<longrightarrow> keys_32 s')) \<and>
   (case getSessionKey peerId (setSessionKey peerId keyBase64 t s) of
      Some k \<Rightarrow> arrays (setSessionKey peerId keyBase64 t s) k = from_base64 keyBase64
    | None \<Rightarrow> False) \<and>
   (keys_32 s \<longrightarrow>
      (keys_32 (setSessionKey peerId keyBase64 t s) \<longleftrightarrow> length (from_base64 keyBase64) = 32))"
proof (intro conjI)
  have g: "keys_32 s \<Longrightarrow> keys_32 (snd (generateSessionKey peerId r t s))"
    unfolding generateSessionKey_def Let_def snd_conv
    by (rule keys_32_update) simp_all
  show "case generateSessionKey peerId r t s of
      (k, s') \<Rightarrow> getSessionKey peerId s' = Some k \<and> arrays s' k = map r [0..<32] \<and>
                 length (arrays s' k) = 32 \<and> (keys_32 s \<longrightarrow> keys_32 s')"
    using g by (auto simp: generateSessionKey_def getSessionKey_def Let_def update_conv')
  show "case getSessionKey peerId (setSessionKey peerId keyBase64 t s) of
      Some k \<Rightarrow> arrays (setSessionKey peerId keyBase64 t s) k = from_base64 keyBase64
    | None \<Rightarrow> False"
    by (simp add: setSessionKey_def getSessionKey_def Let_def update_conv' map_nth)
  show "keys_32 s \<longrightarrow>
      (keys_32 (setSessionKey peerId keyBase64 t s) \<longleftrightarrow> length (from_base64 keyBase64) = 32)"
  proof (intro impI iffI)
    assume "keys_32 (setSessionKey peerId keyBase64 t s)"
    moreover have "(peerId, \<lparr>key = fresh s, createdAt = t\<rparr>) \<in> set (sessionKeys (setSessionKey peerId keyBase64 t s))"
      by (rule map_of_SomeD) (simp add: setSessionKey_def Let_def update_conv')
    ultimately have "length (arrays (setSessionKey peerId keyBase64 t s) (fresh s)) = 32"
      unfolding keys_32_def list_all_iff by fastforce
    then show "length (from_base64 keyBase64) = 32"
      by (simp add: setSessionKey_def Let_def)
  next
    assume "keys_32 s" "length (from_base64 keyBase64) = 32"
    then show "keys_32 (setSessionKey peerId keyBase64 t s)"
      unfolding setSessionKey_def Let_def
      by (intro keys_32_update) (simp_all add: map_nth)
  qed
qed

theorem key_length_witness:
  "keys_32 bob_keyed \<and>
   getSessionKey alice (snd (generateSessionKey alice rnd0 1000 bob_keyed))
     = Some (fst (generateSessionKey alice rnd0 1000 bob_keyed)) \<and>
   length (arrays (snd (generateSessionKey alice rnd0 1000 bob_keyed))
             (fst (generateSessionKey alice rnd0 1000 bob_keyed))) = 32 \<and>
   keys_32 (snd (generateSessionKey alice rnd0 1000 bob_keyed)) \<and>
   length (from_base64 short_key) = 3 \<and>
   \<not> keys_32 (setSessionKey alice short_key 1000 bob_keyed)"
  using key_length[where peerId = alice and r = rnd0 and t = 1000 and s = bob_keyed
      and ?keyBase64.0 = short_key]
  by (simp add: split_def short_key_bytes bob_keyed_32)

theorem setSessionKey_short_key:
  "keys_32 aes_init \<and> getSessionKey bob (setSessionKey bob short_key 1000 aes_init) = Some 0 \<and>
   arrays (setSessionKey bob short_key 1000 aes_init) 0 = [0, 0, 0] \<and>
   \<not> keys_32 (setSessionKey bob short_key 1000 aes_init)"
  by (simp add: keys_32_def setSessionKey_def getSessionKey_def aes_init_def Let_def short_key_bytes)

text \<open>
  C8, as amended.  Without an open data channel for the peer (no session, no channel, or
  a channel whose state is not open) \<open>sendMessage\<close> returns false, makes no call and
  leaves the manager as it was.  With an open channel it calls \<open>send\<close> once, with the JSON
  text of the encrypted envelope, or with the message itself when no key is installed;
  it returns true when \<open>send\<close> returns and false when \<open>send\<close> throws, and the manager is
  unchanged.  \<open>sendMessage_send_throws\<close> is the case where the claim as stated fails.
\<close>

theorem sendMessage_result:
  "((case map_of (connections w) peerId of
       None \<Rightarrow> True
     | Some conn \<Rightarrow> (case dataChannel conn of None \<Rightarrow> True | Some ch \<Rightarrow> readyState ch \<noteq> rs_open))
    \<longrightarrow> sendMessage peerId message e w = (False, [], w)) \<and>
   (map_of (connections w1) peerId1 = Some conn1 \<and> dataChannel conn1 = Some ch1 \<and> readyState ch1 = rs_open
    \<longrightarrow> sendMessage peerId1 message1 e1 w1 =
      (send_error e1 = None,
       [channel_send (channel ch1)
          (case encrypt peerId1 message1 (rnd e1) (aes w1) of
             Inr encrypted \<Rightarrow> JSON_stringify [(js ''iv'', iv encrypted),
                                    (js ''ciphertext'', ciphertext encrypted),
                                    (js ''tag'', tag encrypted)]
           | Inl err \<Rightarrow> message1)
          (send_error e1)], w1))"
  by (simp add: sendMessage_def split: option.splits)

theorem sendMessage_result_witness:
  "map_of (connections alice_manager) bob = Some session0 \<and>
   dataChannel session0 = Some \<lparr>channel = 1, readyState = rs_connecting\<rparr> \<and>
   sendMessage bob (js ''hi'') env0 alice_manager = (False, [], alice_manager) \<and>
   map_of (connections alice_idle) bob = None \<and>
   sendMessage bob (js ''hi'') env0 alice_idle = (False, [], alice_idle) \<and>
   map_of (connections alice_open) bob = Some (session0\<lparr>dataChannel := Some \<lparr>channel = 1, readyState = rs_open\<rparr>,
                      state := connected, hasRemoteDescription := True\<rparr>) \<and>
   fst (sendMessage bob (js ''hi'') env0 alice_open) = True \<and>
   snd (snd (sendMessage bob (js ''hi'') env0 alice_open)) = alice_open"
  using sendMessage_result[where w = alice_manager and peerId = bob and message = "js ''hi''" and e = env0
     and ?w1.0 = alice_open and ?peerId1.0 = bob 
     and ?conn1.0 = "session0\<lparr>dataChannel := Some \<lparr>channel = 1, readyState = rs_open\<rparr>,
                      state := connected, hasRemoteDescription := True\<rparr>"
     and ?ch1.0 = "\<lparr>channel = 1, readyState = rs_open\<rparr>" and ?message1.0 = "js ''hi''" and ?e1.0 = env0]
   sendMessage_result[where w = alice_idle and peerId = bob and message = "js ''hi''" and e = env0]
  by (simp add: alice_manager_connections alice_idle_facts alice_open_facts session0_def env0_def)

theorem sendMessage_send_throws:
  "map_of (connections alice_open) bob = Some (session0\<lparr>dataChannel := Some \<lparr>channel = 1, readyState = rs_open\<rparr>,
                      state := connected, hasRemoteDescription := True\<rparr>) \<and>
   fst (sendMessage bob (js ''hi'') env_send_fails alice_open) = False"
  by (simp add: sendMessage_def alice_open_facts session0_def env_send_fails_def)

text \<open>
  C9.  For a peer with no installed session key, \<open>encrypt\<close> and \<open>decrypt\<close> both fail with
  the error "No session key for peer: <peerId>", whatever the plaintext, the random
  source and the envelope are.  Neither returns a state: the store is left as it was.
\<close>

theorem no_key_error:
  "map_of (sessionKeys s) peerId = None \<longrightarrow>
     encrypt peerId plaintext r s = Inl (NoKeyError peerId) \<and>
     decrypt peerId data s = Inl (NoKeyError peerId)"
  by (simp add: encrypt_def decrypt_def getSessionKey_def)

theorem no_key_error_witness:
  "map_of (sessionKeys aes_init) bob = None \<and>
   encrypt bob (js ''hi'') rnd0 aes_init = Inl (NoKeyError bob) \<and>
   decrypt bob \<lparr>iv = [], ciphertext = js ''aGk='', tag = []\<rparr> aes_init = Inl (NoKeyError bob)"
  using no_key_error [where s = aes_init and peerId = bob and plaintext = "js ''hi''" and r = rnd0
      and data = "\<lparr>iv = [], ciphertext = js ''aGk='', tag = []\<rparr>"]
  by (simp add: aes_init_def)

text \<open>
  C10.  \<open>sendSignal\<close> with a recipient whose public key is empty or contains \<open>mock\<close> makes
  one call, the relay's, and the envelope carries the payload as it is; the only error
  it can end with is the relay's.  \<open>pgpService.encrypt\<close> is called exactly when the
  key is not empty and does not contain \<open>mock\<close>.
\<close>

theorem sendSignal_plain:
  "(pgp_public_key peer = [] \<or> str_includes (pgp_public_key peer) (js ''mock'') \<longrightarrow>
      sendSignal peer ty payload e =
        ((case sendSignal_error e of Some err \<Rightarrow> Inl err | None \<Rightarrow> Inr ()),
         [api_sendSignal \<lparr>to_user = username peer, signal_type = ty, encrypted_payload = payload\<rparr>
            (sendSignal_error e)])) \<and>
   (pgpService_encrypt payload (pgp_public_key peer) \<in> set (snd (sendSignal peer ty payload e))
      \<longleftrightarrow> pgp_public_key peer \<noteq> [] \<and> \<not> str_includes (pgp_public_key peer) (js ''mock''))"
  by (auto simp add: sendSignal_def Let_def)

theorem sendSignal_plain_witness:
  "str_includes (pgp_public_key bob_user) (js ''mock'') \<and>
   sendSignal bob_user ice candidate1 env0 =
     (Inr (), [api_sendSignal \<lparr>to_user = bob, signal_type = ice, encrypted_payload = candidate1\<rparr> None]) \<and>
   pgp_public_key alice_user = [] \<and>
   sendSignal alice_user ice candidate1 env0 =
     (Inr (), [api_sendSignal \<lparr>to_user = alice, signal_type = ice, encrypted_payload = candidate1\<rparr> None]) \<and>
   pgp_public_key carol_user \<noteq> [] \<and> \<not> str_includes (pgp_public_key carol_user) (js ''mock'') \<and>
   pgpService_encrypt candidate1 (pgp_public_key carol_user) \<in> set (snd (sendSignal carol_user ice candidate1 env0))"
  using sendSignal_plain[where peer = bob_user and ty = ice and payload = candidate1 and e = env0]
    sendSignal_plain[where peer = alice_user and ty = ice and payload = candidate1 and e = env0]
    sendSignal_plain[where peer = carol_user and ty = ice and payload = candidate1 and e = env0]
  by (simp add: bob_user_def alice_user_def carol_user_def env0_def js_def)

section \<open>Further properties: keys in transit, the poll loop, teardown and the two scenarios\<close>

text \<open>
  The exported key is reversible: the text \<open>exportKey\<close> gives for a stored key,
  installed by \<open>setSessionKey\<close> in any store and for any peer, gives a key with the same
  bytes.
\<close>

theorem exported_key_installs:
  "getSessionKey p s = Some k \<longrightarrow>
     (case exportKey p s of
        Some text \<Rightarrow>
          getSessionKey q (setSessionKey q text t s2) = Some (fresh s2) \<and>
          arrays (setSessionKey q text t s2) (fresh s2) = arrays s k
      | None \<Rightarrow> False)"
  by (simp add: exportKey_def setSessionKey_def getSessionKey_def Let_def update_conv'
        base64_roundtrip map_nth)

theorem exported_key_installs_witness:
  "getSessionKey bob bob_keyed = Some 0 \<and>
   (case exportKey bob bob_keyed of
      Some text \<Rightarrow>
        getSessionKey alice (setSessionKey alice text 1000 aes_init) = Some (fresh aes_init) \<and>
        arrays (setSessionKey alice text 1000 aes_init) (fresh aes_init) = arrays bob_keyed 0
    | None \<Rightarrow> False)"
  using exported_key_installs[where p = bob and s = bob_keyed and k = 0 and q = alice and t = 1000
      and ?s2.0 = aes_init]
  by (simp add: bob_keyed_facts)

text \<open>
  \<open>init\<close> starts the poll loop once: with a poller running it registers the
  callbacks and the user and creates no timer; with none it creates one, and a second
  \<open>init\<close> then creates no second one.
\<close>

theorem init_polls_once:
  "(pollingInterval w = Some t \<longrightarrow>
      init user e w = ([], w\<lparr>callbacks := True, currentUser := Some user\<rparr>)) \<and>
   (pollingInterval w = None \<longrightarrow>
      init user e w = ([setInterval (timer e)],
                       w\<lparr>callbacks := True, currentUser := Some user, pollingInterval := Some (timer e)\<rparr>) \<and>
      fst (init user' e' (snd (init user e w))) = [] \<and>
      pollingInterval (snd (init user' e' (snd (init user e w)))) = Some (timer e))"
  by (simp add: init_def startPolling_def)

theorem init_polls_once_witness:
  "pollingInterval manager_init = None \<and>
   fst (init alice env0 manager_init) = [setInterval 1] \<and>
   pollingInterval alice_idle = Some 1 \<and>
   fst (init alice env_send_fails alice_idle) = [] \<and>
   pollingInterval (snd (init alice env_send_fails alice_idle)) = Some 1"
  using init_polls_once[where w = manager_init and user = alice and e = env0 and user' = alice
      and e' = env_send_fails]
    init_polls_once[where w = alice_idle and user = alice and e = env_send_fails and t = 1]
  by (simp add: manager_init_def alice_idle_def env0_def)

text \<open>
  \<open>disconnect\<close> of a peer with a session closes the data channel, if there is one,
  and the transport, destroys the session key, removes the session and stops the poll loop.
\<close>

theorem disconnect_session:
  "map_of (connections w) p = Some conn \<longrightarrow>
     (case disconnect p w of
        (evs, w') \<Rightarrow>
          map_of (connections w') p = None \<and>
          getSessionKey p (aes w') = None \<and>
          pollingInterval w' = None \<and>
          evs = (case dataChannel conn of Some ch \<Rightarrow> [channel_close (channel ch)] | None \<Rightarrow> [])
                @ [pc_close (pc conn)]
                @ (case pollingInterval w of Some t \<Rightarrow> [clearInterval t] | None \<Rightarrow> []) \<and>
          aes w' = destroySessionKey p (aes w))"
  by (auto simp: disconnect_def stopPolling_def Let_def map_of_delete_same getSessionKey_def
        destroySessionKey_def delete_conv' split: option.splits)

theorem disconnect_session_witness:
  "map_of (connections alice_manager) bob = Some session0 \<and>
   map_of (connections (snd (disconnect bob alice_manager))) bob = None \<and>
   getSessionKey bob (aes (snd (disconnect bob alice_manager))) = None \<and>
   pollingInterval (snd (disconnect bob alice_manager)) = None \<and>
   aes (snd (disconnect bob alice_manager)) = destroySessionKey bob (aes alice_manager)"
  using disconnect_session[where w = alice_manager and p = bob and conn = session0]
  by (auto simp: alice_manager_connections split_def)

text \<open>
  \<open>connect\<close> on a manager without sessions, when the transport and the relay accept:
  the calls are the state report, the new transport and its data channel, the offer and
  its local description, and one signal of type offer whose payload is the JSON text of
  the offer with \<open>aesKey\<close> the base64 of the 32 generated bytes; the session is stored
  in state connecting, and the key store holds those 32 bytes for the peer.
\<close>

theorem connect_sends_offer:
  "connections w = [] \<and> createOffer_result e = Inr off \<and> setLocalDescription_error e = None \<and>
   sendSignal_error e = None \<longrightarrow>
     (case connect peer e w of
        (evs, w') \<Rightarrow>
          evs = (if callbacks w then [onStateChange (username peer) connecting] else [])
                @ [new_RTCPeerConnection (nextHandle w),
                   createDataChannel (nextHandle w) (Suc (nextHandle w)),
                   createOffer (nextHandle w), setLocalDescription (nextHandle w) off None]
                @ snd (sendSignal peer offer
                         (JSON_stringify [(js ''sdp'', sdp off), (js ''type'', type off),
                            (js ''aesKey'', toString_base64 (map (rnd e) [0..<32]))]) e) \<and>
          map_of (connections w') (username peer) =
            Some \<lparr>pc = nextHandle w,
                  dataChannel = Some \<lparr>channel = Suc (nextHandle w), readyState = rs_connecting\<rparr>,
                  state = connecting, pendingCandidates = [], hasRemoteDescription = False\<rparr> \<and>
          getSessionKey (username peer) (aes w') = Some (fresh (aes w)) \<and>
          arrays (aes w') (fresh (aes w)) = map (rnd e) [0..<32] \<and>
          from_base64 (toString_base64 (map (rnd e) [0..<32])) = arrays (aes w') (fresh (aes w)) \<and>
          length (arrays (aes w') (fresh (aes w))) = 32)"
proof (intro impI)
  assume a: "connections w = [] \<and> createOffer_result e = Inr off \<and> setLocalDescription_error e = None \<and>
   sendSignal_error e = None"
  then have "connections w = []" "createOffer_result e = Inr off" "setLocalDescription_error e = None"
    "sendSignal_error e = None" by simp_all
  from connect_fresh_full[OF this, of peer] show "case connect peer e w of
        (evs, w') \<Rightarrow>
          evs = (if callbacks w then [onStateChange (username peer) connecting] else [])
                @ [new_RTCPeerConnection (nextHandle w),
                   createDataChannel (nextHandle w) (Suc (nextHandle w)),
                   createOffer (nextHandle w), setLocalDescription (nextHandle w) off None]
                @ snd (sendSignal peer offer
                         (JSON_stringify [(js ''sdp'', sdp off), (js ''type'', type off),
                            (js ''aesKey'', toString_base64 (map (rnd e) [0..<32]))]) e) \<and>
          map_of (connections w') (username peer) =
            Some \<lparr>pc = nextHandle w,
                  dataChannel = Some \<lparr>channel = Suc (nextHandle w), readyState = rs_connecting\<rparr>,
                  state = connecting, pendingCandidates = [], hasRemoteDescription = False\<rparr> \<and>
          getSessionKey (username peer) (aes w') = Some (fresh (aes w)) \<and>
          arrays (aes w') (fresh (aes w)) = map (rnd e) [0..<32] \<and>
          from_base64 (toString_base64 (map (rnd e) [0..<32])) = arrays (aes w') (fresh (aes w)) \<and>
          length (arrays (aes w') (fresh (aes w))) = 32"
    by (simp add: generateSessionKey_def getSessionKey_def Let_def update_conv' base64_roundtrip)
qed

theorem connect_sends_offer_witness:
  "connections alice_idle = [] \<and> createOffer_result env0 = Inr \<lparr>sdp = js ''v=0'', type = js ''offer''\<rparr> \<and>
   setLocalDescription_error env0 = None \<and> sendSignal_error env0 = None \<and>
   fst (connect bob_user env0 alice_idle) =
     [onStateChange bob connecting, new_RTCPeerConnection 0, createDataChannel 0 1, createOffer 0,
      setLocalDescription 0 \<lparr>sdp = js ''v=0'', type = js ''offer''\<rparr> None,
      api_sendSignal
        \<lparr>to_user = bob, signal_type = offer,
         encrypted_payload =
           JSON_stringify [(js ''sdp'', js ''v=0''), (js ''type'', js ''offer''),
                           (js ''aesKey'', toString_base64 (map rnd0 [0..<32]))]\<rparr> None] \<and>
   getSessionKey bob (aes (snd (connect bob_user env0 alice_idle))) = Some 0 \<and>
   length (arrays (aes (snd (connect bob_user env0 alice_idle))) 0) = 32"
  using connect_sends_offer[where w = alice_idle and e = env0 and peer = bob_user
      and off = "\<lparr>sdp = js ''v=0'', type = js ''offer''\<rparr>"]
  by (simp add: alice_idle_facts split_def sendSignal_mock)
     (simp add: alice_idle_def init_def startPolling_def manager_init_def aes_init_def env0_def bob_user_def)

text \<open>
  An offer from a peer without session, when the transport accepts and the directory
  knows the peer: the received key is installed, a session is stored in state connecting
  with the remote description applied, and one signal of type answer is sent, with the
  JSON text of the answer and no key.
\<close>

theorem offer_answered:
  "map_of (connections w) p = None \<and> setRemoteDescription_error e = None \<and>
   createAnswer_result e = Inr ans \<and> setLocalDescription_error e = None \<and> getUser_result e = Some peer
   \<longrightarrow>
     handleOffer p payload e w =
       (fst (sendSignal peer answer (JSON_stringify [(js ''sdp'', sdp ans), (js ''type'', type ans)]) e),
        (if callbacks w then [onStateChange p connecting] else [])
        @ [new_RTCPeerConnection (nextHandle w),
           setRemoteDescription (nextHandle w) \<lparr>sdp = sdp payload, type = type payload\<rparr> None,
           createAnswer (nextHandle w), setLocalDescription (nextHandle w) ans None]
        @ snd (sendSignal peer answer (JSON_stringify [(js ''sdp'', sdp ans), (js ''type'', type ans)]) e),
        w\<lparr>aes := (case aesKey payload of
                    Some k \<Rightarrow> if k \<noteq> [] then setSessionKey p k (now e) (aes w) else aes w
                  | None \<Rightarrow> aes w),
           connections := AList.update p
              \<lparr>pc = nextHandle w, dataChannel = None, state = connecting,
               pendingCandidates = [], hasRemoteDescription = True\<rparr> (connections w),
           nextHandle := Suc (nextHandle w)\<rparr>)"
  using handleOffer_fresh_full[of w p e ans peer payload] by simp

theorem offer_answered_witness:
  "map_of (connections alice_idle) bob = None \<and> setRemoteDescription_error env0 = None \<and>
   createAnswer_result env0 = Inr \<lparr>sdp = js ''v=0'', type = js ''answer''\<rparr> \<and>
   setLocalDescription_error env0 = None \<and> getUser_result env0 = Some bob_user \<and>
   fst (handleOffer bob offer_payload env0 alice_idle) = Inr () \<and>
   fst (snd (handleOffer bob offer_payload env0 alice_idle)) =
     [onStateChange bob connecting, new_RTCPeerConnection 0,
      setRemoteDescription 0 \<lparr>sdp = js ''v=0'', type = js ''offer''\<rparr> None,
      createAnswer 0, setLocalDescription 0 \<lparr>sdp = js ''v=0'', type = js ''answer''\<rparr> None,
      api_sendSignal
        \<lparr>to_user = bob, signal_type = answer,
         encrypted_payload = JSON_stringify [(js ''sdp'', js ''v=0''), (js ''type'', js ''answer'')]\<rparr> None] \<and>
   connections (snd (snd (handleOffer bob offer_payload env0 alice_idle))) =
     [(bob, \<lparr>pc = 0, dataChannel = None, state = connecting,
             pendingCandidates = [], hasRemoteDescription = True\<rparr>)]"
  using offer_answered[where w = alice_idle and p = bob and e = env0 and peer = bob_user
      and payload = offer_payload and ans = "\<lparr>sdp = js ''v=0'', type = js ''answer''\<rparr>"]
  by (simp add: alice_idle_facts sendSignal_mock offer_payload_def)
     (simp add: alice_idle_def init_def startPolling_def manager_init_def env0_def)

text \<open>
  When nothing overlaps, the two accounts of the handlers agree: the calls of
  \<open>ordered_schedule\<close> are the calls of \<open>init\<close>, of \<open>connect\<close> and of the handlers of
  its four signals, each run from its call to its return on the state its predecessor
  left.
\<close>

theorem ordered_schedule_agrees:
  "calls (run ordered_schedule runtime_init) =
   fst (fold (\<lambda>(peerId, sg) (es, w).
                case handleSignal peerId sg env0 w of (es', w') \<Rightarrow> (es @ es', w'))
          [(bob, IceSignal (Some candidate1)), (bob, IceSignal (Some candidate2)),
           (bob, AnswerSignal answer_payload), (bob, IceSignal (Some candidate3))]
          (fst (init alice env0 manager_init) @ fst (connect bob_user env0 alice_idle),
           alice_manager))"
proof -
  let ?calls = "[setInterval 1, onStateChange bob connecting, new_RTCPeerConnection 0,
    createDataChannel 0 1, createOffer 0,
    setLocalDescription 0 \<lparr>sdp = js ''v=0'', type = js ''offer''\<rparr> None,
    api_sendSignal
        \<lparr>to_user = bob, signal_type = offer,
         encrypted_payload =
           JSON_stringify [(js ''sdp'', js ''v=0''), (js ''type'', js ''offer''),
                           (js ''aesKey'', toString_base64 (map rnd0 [0..<32]))]\<rparr> None,
    setRemoteDescription 0 \<lparr>sdp = js ''v=0'', type = js ''answer''\<rparr> None,
    addIceCandidate 0 candidate1, addIceCandidate 0 candidate2, addIceCandidate 0 candidate3]"
  have l: "calls (run ordered_schedule runtime_init) = ?calls"
    by (simp add: ordered_schedule_def async_defs exportKey_generated)
  have c: "fst (connect bob_user env0 alice_idle) =
     [onStateChange bob connecting, new_RTCPeerConnection 0, createDataChannel 0 1, createOffer 0,
      setLocalDescription 0 \<lparr>sdp = js ''v=0'', type = js ''offer''\<rparr> None,
      api_sendSignal
        \<lparr>to_user = bob, signal_type = offer,
         encrypted_payload =
           JSON_stringify [(js ''sdp'', js ''v=0''), (js ''type'', js ''offer''),
                           (js ''aesKey'', toString_base64 (map rnd0 [0..<32]))]\<rparr> None]"
    using connect_fresh_full[of alice_idle env0 "\<lparr>sdp = js ''v=0'', type = js ''offer''\<rparr>" bob_user]
    by (simp add: alice_idle_facts sendSignal_mock)
       (simp add: alice_idle_def init_def startPolling_def manager_init_def env0_def bob_user_def)
  have i: "fst (init alice env0 manager_init) = [setInterval 1]"
    by (simp add: init_def startPolling_def manager_init_def env0_def)
  have r: "fst (fold (\<lambda>(peerId, sg) (es, w).
                case handleSignal peerId sg env0 w of (es', w') \<Rightarrow> (es @ es', w'))
          [(bob, IceSignal (Some candidate1)), (bob, IceSignal (Some candidate2)),
           (bob, AnswerSignal answer_payload), (bob, IceSignal (Some candidate3))]
          (fst (init alice env0 manager_init) @ fst (connect bob_user env0 alice_idle),
           alice_manager)) = ?calls"
    unfolding c i
    by (simp add: handleSignal_def handleIceCandidate_def handleAnswer_def
          processPendingCandidates_def alice_manager_connections session0_def env0_def
          answer_payload_def Let_def)
  show ?thesis unfolding l r ..
qed

text \<open>
  The same for the handler of an offer: the calls of \<open>offer_schedule\<close> are the calls of
  \<open>init\<close> and of \<open>handleSignal\<close> on the offer.
\<close>

theorem offer_schedule_agrees:
  "calls (run offer_schedule runtime_init) =
   fst (init alice env0 manager_init)
   @ fst (handleSignal bob (OfferSignal offer_payload) env0 alice_idle)"
proof -
  let ?calls = "[setInterval 1, onStateChange bob connecting, new_RTCPeerConnection 0,
      setRemoteDescription 0 \<lparr>sdp = js ''v=0'', type = js ''offer''\<rparr> None,
      createAnswer 0, setLocalDescription 0 \<lparr>sdp = js ''v=0'', type = js ''answer''\<rparr> None,
      api_sendSignal
        \<lparr>to_user = bob, signal_type = answer,
         encrypted_payload =
           JSON_stringify [(js ''sdp'', js ''v=0''), (js ''type'', js ''answer'')]\<rparr> None]"
  have l: "calls (run offer_schedule runtime_init) = ?calls"
    by (simp add: offer_schedule_def async_defs)
  have i: "fst (init alice env0 manager_init) = [setInterval 1]"
    by (simp add: init_def startPolling_def manager_init_def env0_def)
  have h: "fst (snd (handleOffer bob offer_payload env0 alice_idle)) =
     [onStateChange bob connecting, new_RTCPeerConnection 0,
      setRemoteDescription 0 \<lparr>sdp = js ''v=0'', type = js ''offer''\<rparr> None,
      createAnswer 0, setLocalDescription 0 \<lparr>sdp = js ''v=0'', type = js ''answer''\<rparr> None,
      api_sendSignal
        \<lparr>to_user = bob, signal_type = answer,
         encrypted_payload =
           JSON_stringify [(js ''sdp'', js ''v=0''), (js ''type'', js ''answer'')]\<rparr> None]"
    using handleOffer_fresh_full[of alice_idle bob env0
        "\<lparr>sdp = js ''v=0'', type = js ''answer''\<rparr>" bob_user offer_payload]
    by (simp add: alice_idle_facts sendSignal_mock offer_payload_def)
       (simp add: alice_idle_def init_def startPolling_def manager_init_def env0_def)
  show ?thesis unfolding l i by (simp add: handleSignal_def h)
qed

end
